theory Spec2Isabelle
  imports Complex_Main "HOL-Library.Word"
begin

section \<open>JavaScript numbers\<close>

text \<open>
  The library computes with JavaScript numbers. The embedding keeps the three special
  values the code can produce and branch on (\<open>NaN\<close>, \<open>Infinity\<close>, \<open>-Infinity\<close>) and
  idealises every other number as a real: arithmetic on finite values is exact, so
  rounding, overflow to infinity and the sign of zero are not represented.
\<close>

datatype jsnum = Fin real | PInf | NInf | NaN

fun num_neg :: "jsnum \<Rightarrow> jsnum" where
  "num_neg (Fin a) = Fin (- a)"
| "num_neg PInf = NInf"
| "num_neg NInf = PInf"
| "num_neg NaN = NaN"

fun num_add :: "jsnum \<Rightarrow> jsnum \<Rightarrow> jsnum" where
  "num_add (Fin a) (Fin b) = Fin (a + b)"
| "num_add NaN _ = NaN"
| "num_add _ NaN = NaN"
| "num_add PInf NInf = NaN"
| "num_add NInf PInf = NaN"
| "num_add PInf _ = PInf"
| "num_add _ PInf = PInf"
| "num_add NInf _ = NInf"
| "num_add _ NInf = NInf"

definition num_sub :: "jsnum \<Rightarrow> jsnum \<Rightarrow> jsnum" where
  "num_sub a b = num_add a (num_neg b)"

fun num_mul :: "jsnum \<Rightarrow> jsnum \<Rightarrow> jsnum" where
  "num_mul (Fin a) (Fin b) = Fin (a * b)"
| "num_mul NaN _ = NaN"
| "num_mul _ NaN = NaN"
| "num_mul (Fin a) PInf = (if a = 0 then NaN else if 0 < a then PInf else NInf)"
| "num_mul (Fin a) NInf = (if a = 0 then NaN else if 0 < a then NInf else PInf)"
| "num_mul PInf (Fin b) = (if b = 0 then NaN else if 0 < b then PInf else NInf)"
| "num_mul NInf (Fin b) = (if b = 0 then NaN else if 0 < b then NInf else PInf)"
| "num_mul PInf PInf = PInf"
| "num_mul PInf NInf = NInf"
| "num_mul NInf PInf = NInf"
| "num_mul NInf NInf = PInf"

text \<open>Division; a zero divisor is taken as \<open>+0\<close>.\<close>

fun num_div :: "jsnum \<Rightarrow> jsnum \<Rightarrow> jsnum" where
  "num_div (Fin a) (Fin b) =
     (if b = 0 then (if a = 0 then NaN else if 0 < a then PInf else NInf) else Fin (a / b))"
| "num_div NaN _ = NaN"
| "num_div _ NaN = NaN"
| "num_div (Fin a) PInf = Fin 0"
| "num_div (Fin a) NInf = Fin 0"
| "num_div PInf (Fin b) = (if 0 \<le> b then PInf else NInf)"
| "num_div NInf (Fin b) = (if 0 \<le> b then NInf else PInf)"
| "num_div PInf PInf = NaN"
| "num_div PInf NInf = NaN"
| "num_div NInf PInf = NaN"
| "num_div NInf NInf = NaN"

text \<open>\<open>var ln = Math.log\<close>\<close>

fun ln_js :: "jsnum \<Rightarrow> jsnum" where
  "ln_js (Fin a) = (if a < 0 then NaN else if a = 0 then NInf else Fin (ln a))"
| "ln_js PInf = PInf"
| "ln_js NInf = NaN"
| "ln_js NaN = NaN"

text \<open>\<open>Math.exp\<close> and \<open>Math.sqrt\<close> on one number.\<close>

fun num_exp :: "jsnum \<Rightarrow> jsnum" where
  "num_exp (Fin a) = Fin (exp a)"
| "num_exp PInf = PInf"
| "num_exp NInf = Fin 0"
| "num_exp NaN = NaN"

fun num_sqrt :: "jsnum \<Rightarrow> jsnum" where
  "num_sqrt (Fin a) = (if a < 0 then NaN else Fin (sqrt a))"
| "num_sqrt PInf = PInf"
| "num_sqrt NInf = NaN"
| "num_sqrt NaN = NaN"

text \<open>The comparison \<open>a > b\<close>: false as soon as one side is \<open>NaN\<close>.\<close>

fun num_gt :: "jsnum \<Rightarrow> jsnum \<Rightarrow> bool" where
  "num_gt (Fin a) (Fin b) = (b < a)"
| "num_gt NaN _ = False"
| "num_gt _ NaN = False"
| "num_gt PInf PInf = False"
| "num_gt PInf _ = True"
| "num_gt NInf _ = False"
| "num_gt (Fin a) PInf = False"
| "num_gt (Fin a) NInf = True"

text \<open>The comparison \<open>a >= b\<close>, also false as soon as one side is \<open>NaN\<close>.\<close>

definition num_ge :: "jsnum \<Rightarrow> jsnum \<Rightarrow> bool" where
  "num_ge a b = (num_gt a b \<or> (a = b \<and> a \<noteq> NaN))"

text \<open>Truthiness of a number in a condition: \<open>0\<close> and \<open>NaN\<close> are falsy.\<close>

fun truthy :: "jsnum \<Rightarrow> bool" where
  "truthy (Fin a) = (a \<noteq> 0)"
| "truthy PInf = True"
| "truthy NInf = True"
| "truthy NaN = False"

text \<open>
  Reading \<open>x[j]\<close> from an array of numbers. Past the end the read gives \<open>undefined\<close>,
  which is falsy in a condition and becomes \<open>NaN\<close> in arithmetic and comparisons, so it
  is represented by \<open>NaN\<close>.
\<close>

definition elem :: "jsnum list \<Rightarrow> nat \<Rightarrow> jsnum" where
  "elem xs j = (if j < length xs then xs ! j else NaN)"

text \<open>
  Storing a number into an \<open>Int32Array\<close> element applies ToInt32: \<open>NaN\<close> and the
  infinities become 0, any other value is truncated towards zero and wrapped to 32 bits,
  read as two's complement.
\<close>

fun ToInt32 :: "jsnum \<Rightarrow> 32 word" where
  "ToInt32 (Fin a) = word_of_int (if 0 \<le> a then \<lfloor>a\<rfloor> else \<lceil>a\<rceil>)"
| "ToInt32 PInf = 0"
| "ToInt32 NInf = 0"
| "ToInt32 NaN = 0"

definition of_Int32 :: "32 word \<Rightarrow> jsnum" where
  "of_Int32 w = Fin (of_int (sint w))"

section \<open>Values, arguments and errors\<close>

text \<open>
  Class memberships are integers. Two labels are \<open>===\<close> exactly when they are equal, and
  distinct labels are distinct keys of the \<open>prior\<close> object.
\<close>

type_synonym label = int

text \<open>
  Reading \<open>a[i]\<close> from an array of labels (or of rows): \<open>None\<close> stands for
  \<open>undefined\<close>, the result past the end.
\<close>

definition nth_opt :: "'a list \<Rightarrow> nat \<Rightarrow> 'a option" where
  "nth_opt xs i = (if i < length xs then Some (xs ! i) else None)"

text \<open>
  The assignment \<open>a[i] = v\<close> to a JavaScript array: past the end the array grows, the
  skipped positions reading \<open>undefined\<close>.
\<close>

definition assign :: "'a option list \<Rightarrow> nat \<Rightarrow> 'a option \<Rightarrow> 'a option list" where
  "assign xs i v =
     (if i < length xs then xs[i := v] else xs @ replicate (i - length xs) None @ [v])"

text \<open>
  The errors the code can raise: the three \<open>TypeError\<close>s thrown by the argument checks,
  the \<open>TypeError\<close> of the runtime when a property of \<open>undefined\<close> is read, and the error
  of \<open>toMatrix\<close> on rows of unequal length.
\<close>

datatype error =
    InvalidFirstArgument
  | InvalidSecondArgument
  | InvalidOption
  | PropertyOfUndefined
  | ToMatrixError

text \<open>
  An argument that the caller may pass in any shape: \<open>NotArrayLike\<close> stands for every
  value without an integer \<open>length\<close> (\<open>undefined\<close>, \<open>null\<close>, a number, a plain object).
\<close>

datatype 'a jsarg = NotArrayLike | ArrayLike 'a

text \<open>
  The values an option may hold. Strings and objects are left out: with them
  \<open>counts[j] + this.alpha\<close> would be a string concatenation.
\<close>

datatype jsval = Undefined | Null | Boolean bool | Number jsnum

fun ToNumber :: "jsval \<Rightarrow> jsnum" where
  "ToNumber Undefined = NaN"
| "ToNumber Null = Fin 0"
| "ToNumber (Boolean b) = (if b then Fin 1 else Fin 0)"
| "ToNumber (Number a) = a"

fun ToBoolean :: "jsval \<Rightarrow> bool" where
  "ToBoolean Undefined = False"
| "ToBoolean Null = False"
| "ToBoolean (Boolean b) = b"
| "ToBoolean (Number a) = truthy a"

text \<open>
  The third argument of \<open>multinomNB\<close>: absent, or an object whose own property
  \<open>alpha\<close> is absent (\<open>None\<close>) or holds a value.
\<close>

datatype options = NoOpts | Opts "jsval option"

section \<open>The matrix and vector collaborators\<close>

text \<open>
  Modelled from the spec: the matrix abstraction (\<open>dstructs-matrix\<close>, not part of this
  repository) with \<open>shape\<close>, element \<open>get\<close> and \<open>set\<close>, and the gather \<open>mget\<close>.
  A read outside the shape gives \<open>undefined\<close> (as the package documents), represented as
  in \<open>elem\<close>.
\<close>

record Matrix =
  shape0 :: nat
  shape1 :: nat
  elems :: "nat \<times> nat \<Rightarrow> jsnum"

definition matrix :: "nat \<Rightarrow> nat \<Rightarrow> Matrix" where
  "matrix r c = \<lparr>shape0 = r, shape1 = c, elems = (\<lambda>_. Fin 0)\<rparr>"

definition get :: "Matrix \<Rightarrow> nat \<Rightarrow> nat \<Rightarrow> jsnum" where
  "get x i j = (if i < shape0 x \<and> j < shape1 x then elems x (i, j) else NaN)"

definition set_mat :: "Matrix \<Rightarrow> nat \<Rightarrow> nat \<Rightarrow> jsnum \<Rightarrow> Matrix" where
  "set_mat x i j v =
     (if i < shape0 x \<and> j < shape1 x then x\<lparr>elems := (elems x)((i, j) := v)\<rparr> else x)"

text \<open>\<open>x.mget( ids, [j] )\<close>: the entries of column \<open>j\<close> in the rows \<open>ids\<close>.\<close>

definition mget :: "Matrix \<Rightarrow> nat list \<Rightarrow> nat \<Rightarrow> jsnum list" where
  "mget x ids j = map (\<lambda>r. get x r j) ids"

text \<open>\<open>x.mget( [i], null ).data\<close>: row \<open>i\<close> as an array.\<close>

definition mget_row :: "Matrix \<Rightarrow> nat \<Rightarrow> jsnum list" where
  "mget_row x i = map (\<lambda>k. get x i k) [0..<shape1 x]"

text \<open>
  The inputs of the prediction and fitting functions: a flat array of numbers, a
  non-empty array of arrays of numbers (its first row and the others), or a matrix.
\<close>

datatype input = Arr "jsnum list" | ArrArr "jsnum list" "jsnum list list" | Mat Matrix

fun isArrayArray :: "input \<Rightarrow> bool" where
  "isArrayArray (ArrArr r rs) = True"
| "isArrayArray _ = False"

fun isMatrixLike :: "input \<Rightarrow> bool" where
  "isMatrixLike (Mat x) = True"
| "isMatrixLike _ = False"

text \<open>
  \<open>isArrayLike\<close>: arrays and matrices (a matrix carries its number of elements as
  \<open>length\<close>) are array-like.
\<close>

fun isArrayLike :: "'a jsarg \<Rightarrow> bool" where
  "isArrayLike NotArrayLike = False"
| "isArrayLike (ArrayLike a) = True"

text \<open>
  Modelled from the spec: \<open>toMatrix\<close> (\<open>compute-to-matrix\<close>), the conversion of an array
  of arrays into a matrix; it fails when the rows do not all have the length of the first.
\<close>

definition matrix_of_rows :: "jsnum list \<Rightarrow> jsnum list list \<Rightarrow> Matrix" where
  "matrix_of_rows r rs =
     \<lparr>shape0 = Suc (length rs), shape1 = length r, elems = (\<lambda>(i, k). elem ((r # rs) ! i) k)\<rparr>"

definition toMatrix :: "jsnum list \<Rightarrow> jsnum list list \<Rightarrow> error + Matrix" where
  "toMatrix r rs =
     (if list_all (\<lambda>row. length row = length r) rs
      then Inr (matrix_of_rows r rs)
      else Inl ToMatrixError)"

text \<open>
  Modelled from the spec: the reductions and elementwise operations \<open>sum\<close>, \<open>max\<close>,
  \<open>exp\<close>, \<open>subtract\<close>, \<open>mean\<close>, \<open>stdev\<close> and the distinct values \<open>unique\<close> of the
  \<open>compute-*\<close> packages. \<open>sum\<close> adds from 0 in array order; \<open>max\<close> starts from the first
  element and replaces it by every later element that is greater; \<open>stdev\<close> is the sample
  standard deviation, \<open>NaN\<close> on fewer than two values; \<open>unique\<close> lists the distinct
  values in order of first occurrence.
\<close>

definition sum_js :: "jsnum list \<Rightarrow> jsnum" where
  "sum_js xs = fold (\<lambda>v s. num_add s v) xs (Fin 0)"

fun max_js :: "jsnum list \<Rightarrow> jsnum" where
  "max_js [] = NaN"
| "max_js (x # xs) = fold (\<lambda>v m. if num_gt v m then v else m) xs x"

definition exp_js :: "jsnum list \<Rightarrow> jsnum list" where
  "exp_js xs = map num_exp xs"

definition subtract :: "jsnum list \<Rightarrow> jsnum \<Rightarrow> jsnum list" where
  "subtract xs a = map (\<lambda>v. num_sub v a) xs"

definition mean :: "jsnum list \<Rightarrow> jsnum" where
  "mean xs = num_div (sum_js xs) (Fin (real (length xs)))"

definition stdev :: "jsnum list \<Rightarrow> jsnum" where
  "stdev xs =
     (if length xs \<le> 1 then NaN
      else num_sqrt (num_div
             (sum_js (map (\<lambda>v. num_mul (num_sub v (mean xs)) (num_sub v (mean xs))) xs))
             (Fin (real (length xs - 1)))))"

definition unique :: "label list \<Rightarrow> label list" where
  "unique y = rev (remdups (rev y))"

section \<open>The fitted models\<close>

text \<open>
  The fields both constructors set (\<open>this.n\<close>, \<open>this.p\<close>, \<open>this.classes\<close>,
  \<open>this.nclass\<close>, \<open>this.prior\<close>) and the tables each family adds. \<open>alpha\<close> holds the
  value the constructor was given.
\<close>

record bayes_fit =
  this_n :: nat
  this_p :: nat
  classes :: "label list"
  nclass :: nat
  prior :: "label \<rightharpoonup> jsnum"

record multinomial_fit = bayes_fit +
  alpha :: jsval
  cprob :: Matrix

record gaussian_fit = bayes_fit +
  mu :: Matrix
  sigma :: Matrix

text \<open>
  \<open>this.prior[ c ]\<close> with \<open>c = this.classes[ i ]\<close>: a missing class or a missing key
  reads \<open>undefined\<close>.
\<close>

definition prior_at :: "'a bayes_fit_scheme \<Rightarrow> nat \<Rightarrow> jsnum" where
  "prior_at this i =
     (case nth_opt (classes this) i of
        None \<Rightarrow> NaN
      | Some c \<Rightarrow> (case prior this c of None \<Rightarrow> NaN | Some v \<Rightarrow> v))"

text \<open>The inner loop of both fits that collects \<open>ids\<close>, the rows \<open>j < n\<close> with \<open>y[j] === c\<close>.\<close>

definition ids_of :: "nat \<Rightarrow> label list \<Rightarrow> label \<Rightarrow> nat list" where
  "ids_of n y c = filter (\<lambda>j. nth_opt y j = Some c) [0..<n]"

subsection \<open>Multinomial fit (multinomial.js)\<close>

text \<open>
  One pass of the loop over the classes in \<open>fitMultinomial\<close>, for class index \<open>i\<close>, on
  the pair of \<open>prior\<close> and \<open>cprob\<close>. \<open>counts\<close> is an \<open>Int32Array\<close>. The loop runs for
  \<open>i < this.nclass\<close>, which the constructor sets to \<open>this.classes.length\<close>.
\<close>

definition fitMultinomial_class ::
  "multinomial_fit \<Rightarrow> Matrix \<Rightarrow> label list \<Rightarrow> nat \<Rightarrow>
   (label \<rightharpoonup> jsnum) \<times> Matrix \<Rightarrow> (label \<rightharpoonup> jsnum) \<times> Matrix" where
  "fitMultinomial_class this x y i = (\<lambda>(prior, cprob).
     let c = classes this ! i;
         ids = ids_of (this_n this) y c;
         nc = length ids;
         prior = prior(c \<mapsto> ln_js (num_div (Fin (real nc)) (Fin (real (this_n this)))));
         counts = map (\<lambda>j. ToInt32 (sum_js (mget x ids j))) [0..<this_p this];
         totalCount = sum_js (map of_Int32 counts);
         cprob = fold (\<lambda>j cprob.
                   set_mat cprob j i
                     (num_sub (ln_js (num_add (of_Int32 (counts ! j)) (ToNumber (alpha this))))
                              (ln_js (num_add totalCount
                                 (num_mul (Fin (real (this_p this))) (ToNumber (alpha this)))))))
                 [0..<this_p this] cprob
     in (prior, cprob))"

definition fitMultinomial :: "multinomial_fit \<Rightarrow> Matrix \<Rightarrow> label list \<Rightarrow> multinomial_fit" where
  "fitMultinomial this x y =
     (let (prior, cprob) =
            fold (fitMultinomial_class this x y) [0..<nclass this]
              (Map.empty, matrix (this_p this) (nclass this))
      in this\<lparr>prior := prior, cprob := cprob\<rparr>)"

definition MultinomialFit :: "Matrix \<Rightarrow> label list \<Rightarrow> jsval \<Rightarrow> multinomial_fit" where
  "MultinomialFit x y a =
     fitMultinomial
       \<lparr>this_n = shape0 x, this_p = shape1 x, classes = unique y,
        nclass = length (unique y), prior = Map.empty,
        alpha = a, cprob = matrix 0 0\<rparr> x y"

subsection \<open>Prediction, shared by both families\<close>

text \<open>
  The argmax scan that closes \<open>predictOne\<close> and the row loop of \<open>predict\<close> in both
  files: \<open>max = logLik[0]\<close>, \<open>argmax = this.classes[0]\<close>, then for every \<open>i < nClasses\<close>
  the pair is replaced when \<open>logLik[i] > max\<close>. \<open>None\<close> is \<open>undefined\<close>.
\<close>

definition argmax_scan :: "label list \<Rightarrow> jsnum list \<Rightarrow> nat \<Rightarrow> label option" where
  "argmax_scan cls logLik nClasses =
     snd (fold (\<lambda>i (max, argmax).
                  let val = elem logLik i
                  in if num_gt val max then (val, nth_opt cls i) else (max, argmax))
            [0..<nClasses] (elem logLik 0, nth_opt cls 0))"

text \<open>
  The normalisation that closes both cases of \<open>predictProbs\<close> in both files:
  \<open>a = max( logLik )\<close>, \<open>denom = a + ln( sum( exp( subtract( logLik, a ) ) ) )\<close>,
  \<open>exp( subtract( logLik, denom ) )\<close>.
\<close>

definition normalize_js :: "jsnum list \<Rightarrow> jsnum list" where
  "normalize_js logLik =
     (let a = max_js logLik;
          denom = num_add a (ln_js (sum_js (exp_js (subtract logLik a))))
      in exp_js (subtract logLik denom))"

text \<open>
  What \<open>predict\<close> returns: one label for a single observation, an array of labels for
  a matrix. What \<open>predictProbs\<close> returns: one array of probabilities, or an array of
  such arrays.
\<close>

datatype prediction = Label "label option" | Labels "label option list"

datatype probabilities = Probs "jsnum list" | ProbsRows "jsnum list option list"

subsection \<open>Multinomial prediction (multinomial.js)\<close>

text \<open>
  \<open>calcMultinomProb( x, i, j )\<close>; no other function calls it, and its third parameter
  is overwritten by the loop.
\<close>

definition calcMultinomProb :: "multinomial_fit \<Rightarrow> jsnum list \<Rightarrow> nat \<Rightarrow> jsnum" where
  "calcMultinomProb this x i =
     fold (\<lambda>j res. num_add res
             (if truthy (elem x j) then num_mul (elem x j) (get (cprob this) j i) else Fin 0))
       [0..<this_p this] (prior_at this i)"

text \<open>\<open>logLik[ i ]\<close> as \<open>predictOne\<close> computes it.\<close>

definition logLik_predictOne :: "multinomial_fit \<Rightarrow> jsnum list \<Rightarrow> nat \<Rightarrow> jsnum" where
  "logLik_predictOne this x i =
     fold (\<lambda>j l. num_add l
             (if truthy (elem x j) then num_mul (elem x j) (get (cprob this) j i) else Fin 0))
       [0..<this_p this] (prior_at this i)"

definition predictOne_multinomial :: "multinomial_fit \<Rightarrow> jsnum list \<Rightarrow> label option" where
  "predictOne_multinomial this x =
     (let nClasses = length (classes this);
          logLik = map (logLik_predictOne this x) [0..<nClasses]
      in argmax_scan (classes this) logLik nClasses)"

text \<open>\<open>logLik[ j ]\<close> for row \<open>i\<close> as case A of \<open>predict\<close> computes it.\<close>

definition logLik_predict :: "multinomial_fit \<Rightarrow> Matrix \<Rightarrow> nat \<Rightarrow> nat \<Rightarrow> jsnum" where
  "logLik_predict this x i j =
     fold (\<lambda>k l. num_add l
             (if truthy (get x i k) then num_mul (get x i k) (get (cprob this) k j) else Fin 0))
       [0..<this_p this] (prior_at this j)"

definition predict_rows_multinomial :: "multinomial_fit \<Rightarrow> Matrix \<Rightarrow> label option list" where
  "predict_rows_multinomial this x =
     (let nClasses = length (classes this)
      in fold (\<lambda>i ret. assign ret i
                 (argmax_scan (classes this)
                    (map (logLik_predict this x i) [0..<nClasses]) nClasses))
           [0..<shape0 x] [])"

fun predict_multinomial :: "multinomial_fit \<Rightarrow> input \<Rightarrow> error + prediction" where
  "predict_multinomial this (ArrArr r rs) =
     (case toMatrix r rs of
        Inl e \<Rightarrow> Inl e
      | Inr x \<Rightarrow> Inr (Labels (predict_rows_multinomial this x)))"
| "predict_multinomial this (Mat x) = Inr (Labels (predict_rows_multinomial this x))"
| "predict_multinomial this (Arr x) = Inr (Label (predictOne_multinomial this x))"

text \<open>\<open>logLik[ j ]\<close> for row \<open>i\<close> as case A of \<open>predictProbs\<close> computes it.\<close>

definition logLik_predictProbs_A :: "multinomial_fit \<Rightarrow> Matrix \<Rightarrow> nat \<Rightarrow> nat \<Rightarrow> jsnum" where
  "logLik_predictProbs_A this x i j =
     fold (\<lambda>k l. num_add l
             (if truthy (get x i k) then num_mul (get x i k) (get (cprob this) k j) else Fin 0))
       [0..<this_p this] (prior_at this j)"

text \<open>\<open>logLik[ j ]\<close> as case B of \<open>predictProbs\<close> computes it.\<close>

definition logLik_predictProbs_B :: "multinomial_fit \<Rightarrow> jsnum list \<Rightarrow> nat \<Rightarrow> jsnum" where
  "logLik_predictProbs_B this x j =
     fold (\<lambda>k l. num_add l (num_mul (elem x k) (get (cprob this) k j)))
       [0..<this_p this] (prior_at this j)"

text \<open>
  Case A of \<open>predictProbs\<close>. \<open>ret = new Array( nrow )\<close> runs while \<open>nrow\<close> is still
  \<open>undefined\<close>, and \<open>new Array( undefined )\<close> is the one-element array \<open>[ undefined ]\<close>.
\<close>

definition predictProbs_rows_multinomial ::
  "multinomial_fit \<Rightarrow> Matrix \<Rightarrow> jsnum list option list" where
  "predictProbs_rows_multinomial this x =
     fold (\<lambda>i ret. assign ret i
             (Some (normalize_js (map (logLik_predictProbs_A this x i) [0..<nclass this]))))
       [0..<shape0 x] [None]"

fun predictProbs_multinomial :: "multinomial_fit \<Rightarrow> input \<Rightarrow> error + probabilities" where
  "predictProbs_multinomial this (ArrArr r rs) =
     (case toMatrix r rs of
        Inl e \<Rightarrow> Inl e
      | Inr x \<Rightarrow> Inr (ProbsRows (predictProbs_rows_multinomial this x)))"
| "predictProbs_multinomial this (Mat x) = Inr (ProbsRows (predictProbs_rows_multinomial this x))"
| "predictProbs_multinomial this (Arr x) =
     Inr (Probs (normalize_js (map (logLik_predictProbs_B this x) [0..<nclass this])))"

subsection \<open>Gaussian model (gaussian.js)\<close>

text \<open>
  One pass of the loop over the classes in \<open>fitGaussian\<close>, for class index \<open>i\<close>; it
  writes \<open>this.prior\<close>, \<open>this.mu\<close> and \<open>this.sigma\<close> in place.
\<close>

definition fitGaussian_class ::
  "Matrix \<Rightarrow> label list \<Rightarrow> nat \<Rightarrow> gaussian_fit \<Rightarrow> gaussian_fit" where
  "fitGaussian_class x y i this =
     (let c = classes this ! i;
          ids = ids_of (this_n this) y c;
          nc = length ids;
          this = this\<lparr>prior := (prior this)
                   (c \<mapsto> ln_js (num_div (Fin (real nc)) (Fin (real (this_n this)))))\<rparr>
      in fold (\<lambda>j this.
                 this\<lparr>mu := set_mat (mu this) j i (mean (mget x ids j)),
                      sigma := set_mat (sigma this) j i (stdev (mget x ids j))\<rparr>)
           [0..<this_p this] this)"

definition fitGaussian :: "gaussian_fit \<Rightarrow> Matrix \<Rightarrow> label list \<Rightarrow> gaussian_fit" where
  "fitGaussian this x y =
     fold (fitGaussian_class x y) [0..<nclass this]
       (this\<lparr>prior := Map.empty,
             mu := matrix (this_p this) (nclass this),
             sigma := matrix (this_p this) (nclass this)\<rparr>)"

definition GaussianFit :: "Matrix \<Rightarrow> label list \<Rightarrow> gaussian_fit" where
  "GaussianFit x y =
     fitGaussian
       \<lparr>this_n = shape0 x, this_p = shape1 x, classes = unique y,
        nclass = length (unique y), prior = Map.empty,
        mu = matrix 0 0, sigma = matrix 0 0\<rparr> x y"

text \<open>
  \<open>calcGaussianProb( x, i )\<close>: \<open>res\<close> starts at the prior and each feature adds
  \<open>-0.5 * ln( 2 * PI ) * sigma - 0.5 * ( x[ j ] - mu ) / sigma\<close>.
\<close>

definition gaussian_val :: "gaussian_fit \<Rightarrow> jsnum list \<Rightarrow> nat \<Rightarrow> nat \<Rightarrow> jsnum" where
  "gaussian_val this x i j =
     num_sub
       (num_mul (num_mul (Fin (- 0.5)) (ln_js (num_mul (Fin 2) (Fin pi))))
                (get (sigma this) j i))
       (num_div (num_mul (Fin 0.5) (num_sub (elem x j) (get (mu this) j i)))
                (get (sigma this) j i))"

definition calcGaussianProb :: "gaussian_fit \<Rightarrow> jsnum list \<Rightarrow> nat \<Rightarrow> jsnum" where
  "calcGaussianProb this x i =
     fold (\<lambda>j res. num_add res (gaussian_val this x i j)) [0..<this_p this] (prior_at this i)"

definition predictOne_gaussian :: "gaussian_fit \<Rightarrow> jsnum list \<Rightarrow> label option" where
  "predictOne_gaussian this x =
     (let nClasses = length (classes this);
          logLik = map (calcGaussianProb this x) [0..<nClasses]
      in argmax_scan (classes this) logLik nClasses)"

definition predict_rows_gaussian :: "gaussian_fit \<Rightarrow> Matrix \<Rightarrow> label option list" where
  "predict_rows_gaussian this x =
     (let nClasses = length (classes this)
      in fold (\<lambda>i ret. assign ret i
                 (argmax_scan (classes this)
                    (map (calcGaussianProb this (mget_row x i)) [0..<nClasses]) nClasses))
           [0..<shape0 x] [])"

fun predict_gaussian :: "gaussian_fit \<Rightarrow> input \<Rightarrow> error + prediction" where
  "predict_gaussian this (ArrArr r rs) =
     (case toMatrix r rs of
        Inl e \<Rightarrow> Inl e
      | Inr x \<Rightarrow> Inr (Labels (predict_rows_gaussian this x)))"
| "predict_gaussian this (Mat x) = Inr (Labels (predict_rows_gaussian this x))"
| "predict_gaussian this (Arr x) = Inr (Label (predictOne_gaussian this x))"

definition predictProbs_rows_gaussian :: "gaussian_fit \<Rightarrow> Matrix \<Rightarrow> jsnum list option list" where
  "predictProbs_rows_gaussian this x =
     fold (\<lambda>i ret. assign ret i
             (Some (normalize_js (map (calcGaussianProb this (mget_row x i)) [0..<nclass this]))))
       [0..<shape0 x] [None]"

fun predictProbs_gaussian :: "gaussian_fit \<Rightarrow> input \<Rightarrow> error + probabilities" where
  "predictProbs_gaussian this (ArrArr r rs) =
     (case toMatrix r rs of
        Inl e \<Rightarrow> Inl e
      | Inr x \<Rightarrow> Inr (ProbsRows (predictProbs_rows_gaussian this x)))"
| "predictProbs_gaussian this (Mat x) = Inr (ProbsRows (predictProbs_rows_gaussian this x))"
| "predictProbs_gaussian this (Arr x) =
     Inr (Probs (normalize_js (map (calcGaussianProb this x) [0..<nclass this])))"

subsection \<open>score (score.js)\<close>

text \<open>
  \<open>yhat[ i ]\<close>: an element of the array of predictions, \<open>undefined\<close> past its end; a
  single numeric label has no indexed property; reading a property of \<open>undefined\<close>
  throws.
\<close>

fun index_yhat :: "prediction \<Rightarrow> nat \<Rightarrow> error + label option" where
  "index_yhat (Labels ls) i = Inr (case nth_opt ls i of None \<Rightarrow> None | Some v \<Rightarrow> v)"
| "index_yhat (Label (Some l)) i = Inr None"
| "index_yhat (Label None) i = Inl PropertyOfUndefined"

text \<open>The loop of \<open>score\<close> that counts the positions \<open>i < n\<close> with \<open>yhat[ i ] === y[ i ]\<close>.\<close>

definition count_matches :: "prediction \<Rightarrow> label list \<Rightarrow> error + jsnum" where
  "count_matches yhat y =
     fold (\<lambda>i acc.
             case acc of
               Inl e \<Rightarrow> Inl e
             | Inr accuracy \<Rightarrow>
                 (case index_yhat yhat i of
                    Inl e \<Rightarrow> Inl e
                  | Inr v \<Rightarrow>
                      Inr (if v = Some (y ! i) then num_add accuracy (Fin 1) else accuracy)))
       [0..<length y] (Inr (Fin 0))"

text \<open>
  \<open>score\<close> is shared by both prototypes and calls \<open>this.predict\<close>, its first parameter
  here.
\<close>

fun score ::
  "(input \<Rightarrow> error + prediction) \<Rightarrow> input jsarg \<Rightarrow> label list jsarg \<Rightarrow> error + jsnum" where
  "score predict NotArrayLike y = Inl InvalidFirstArgument"
| "score predict (ArrayLike x) NotArrayLike = Inl InvalidSecondArgument"
| "score predict (ArrayLike x) (ArrayLike y) =
     (case predict x of
        Inl e \<Rightarrow> Inl e
      | Inr yhat \<Rightarrow>
          (case count_matches yhat y of
             Inl e \<Rightarrow> Inl e
           | Inr accuracy \<Rightarrow> Inr (num_div accuracy (Fin (real (length y))))))"

subsection \<open>The entry points (index.js)\<close>

text \<open>
  Modelled from the spec: \<open>isNumber\<close> (\<open>validate.io-number-primitive\<close>), true of the
  numbers other than \<open>NaN\<close>.
\<close>

fun isNumber :: "jsval \<Rightarrow> bool" where
  "isNumber (Number a) = (a \<noteq> NaN)"
| "isNumber _ = False"

text \<open>
  The first check of both entry points: an array of arrays is converted, a matrix is
  kept, anything else is rejected.
\<close>

fun check_x :: "input jsarg \<Rightarrow> error + Matrix" where
  "check_x (ArrayLike (ArrArr r rs)) = toMatrix r rs"
| "check_x (ArrayLike (Mat x)) = Inr x"
| "check_x (ArrayLike (Arr v)) = Inl InvalidFirstArgument"
| "check_x NotArrayLike = Inl InvalidFirstArgument"

text \<open>
  The condition \<open>arguments > 2\<close> compares the \<open>arguments\<close> object itself with 2. The
  object converts to the number \<open>NaN\<close>.
\<close>

definition arguments_ToNumber :: jsnum where
  "arguments_ToNumber = NaN"

text \<open>The body of \<open>if ( arguments > 2 ) { ... }\<close>: the check of \<open>opts.alpha\<close>.\<close>

fun check_alpha :: "options \<Rightarrow> error + unit" where
  "check_alpha NoOpts = Inl PropertyOfUndefined"
| "check_alpha (Opts None) = Inr ()"
| "check_alpha (Opts (Some v)) = (if \<not> isNumber v then Inl InvalidOption else Inr ())"

text \<open>\<open>opts.alpha || 1\<close>\<close>

fun alpha_or_1 :: "options \<Rightarrow> error + jsval" where
  "alpha_or_1 NoOpts = Inl PropertyOfUndefined"
| "alpha_or_1 (Opts None) = Inr (Number (Fin 1))"
| "alpha_or_1 (Opts (Some v)) = Inr (if ToBoolean v then v else Number (Fin 1))"

definition multinomNB ::
  "input jsarg \<Rightarrow> label list jsarg \<Rightarrow> options \<Rightarrow> error + multinomial_fit" where
  "multinomNB x y opts =
     (case check_x x of
        Inl e \<Rightarrow> Inl e
      | Inr x \<Rightarrow>
          (case y of
             NotArrayLike \<Rightarrow> Inl InvalidSecondArgument
           | ArrayLike y \<Rightarrow>
               (case (if num_gt arguments_ToNumber (Fin 2) then check_alpha opts else Inr ()) of
                  Inl e \<Rightarrow> Inl e
                | Inr _ \<Rightarrow>
                    (case alpha_or_1 opts of
                       Inl e \<Rightarrow> Inl e
                     | Inr a \<Rightarrow> Inr (MultinomialFit x y a)))))"

definition gaussianNB :: "input jsarg \<Rightarrow> label list jsarg \<Rightarrow> error + gaussian_fit" where
  "gaussianNB x y =
     (case check_x x of
        Inl e \<Rightarrow> Inl e
      | Inr x \<Rightarrow>
          (case y of
             NotArrayLike \<Rightarrow> Inl InvalidSecondArgument
           | ArrayLike y \<Rightarrow> Inr (GaussianFit x y)))"

section \<open>Example models\<close>

text \<open>
  Fitted models used as concrete inputs in the properties. Multinomial fits:
  \<^item> \<open>fit_single\<close>: \<open>x = [[1]]\<close>, \<open>y = [0]\<close>, \<open>alpha = 1\<close>;
  \<^item> \<open>fit_tie\<close>: \<open>x = [[1], [1]]\<close>, \<open>y = [0, 1]\<close>, \<open>alpha = 1\<close>;
  \<^item> \<open>fit_two_classes\<close>: \<open>x = [[2, 0], [1, 3]]\<close>, \<open>y = [0, 1]\<close>, \<open>alpha = 1\<close>;
  \<^item> \<open>fit_negative_alpha\<close>: \<open>x = [[1, 2]]\<close>, \<open>y = [0]\<close>, \<open>alpha = -1\<close>;
  \<^item> \<open>fit_large_count\<close>: \<open>x = [[2147483648, 0]]\<close>, \<open>y = [0]\<close>, \<open>alpha = 1\<close>.

  Gaussian fits:
  \<^item> \<open>gaussian_constant\<close>: \<open>x = [[1], [1]]\<close>, \<open>y = [0, 0]\<close>, one class whose feature is
    constant;
  \<^item> \<open>gaussian_mixed\<close>: \<open>x = [[1], [1], [0], [1], [2]]\<close>, \<open>y = [0, 0, 1, 1, 1]\<close>, class 0
    constant, class 1 of mean 1 and deviation 1;
  \<^item> \<open>gaussian_three\<close>: \<open>x = [[0], [1], [2], [1], [1], [3], [3]]\<close>,
    \<open>y = [0, 0, 0, 1, 1, 2, 2]\<close>, classes 1 and 2 constant.
\<close>

abbreviation fit_single :: multinomial_fit where
  "fit_single \<equiv> MultinomialFit (matrix_of_rows [Fin 1] []) [0] (Number (Fin 1))"

abbreviation fit_negative_alpha :: multinomial_fit where
  "fit_negative_alpha \<equiv>
     MultinomialFit (matrix_of_rows [Fin 1, Fin 2] []) [0] (Number (Fin (- 1)))"

abbreviation fit_large_count :: multinomial_fit where
  "fit_large_count \<equiv>
     MultinomialFit (matrix_of_rows [Fin 2147483648, Fin 0] []) [0] (Number (Fin 1))"

abbreviation fit_tie :: multinomial_fit where
  "fit_tie \<equiv> MultinomialFit (matrix_of_rows [Fin 1] [[Fin 1]]) [0, 1] (Number (Fin 1))"

abbreviation gaussian_mixed :: gaussian_fit where
  "gaussian_mixed \<equiv>
     GaussianFit (matrix_of_rows [Fin 1] [[Fin 1], [Fin 0], [Fin 1], [Fin 2]]) [0, 0, 1, 1, 1]"

abbreviation fit_two_classes :: multinomial_fit where
  "fit_two_classes \<equiv>
     MultinomialFit (matrix_of_rows [Fin 2, Fin 0] [[Fin 1, Fin 3]]) [0, 1] (Number (Fin 1))"

abbreviation gaussian_constant :: gaussian_fit where
  "gaussian_constant \<equiv> GaussianFit (matrix_of_rows [Fin 1] [[Fin 1]]) [0, 0]"

abbreviation gaussian_three :: gaussian_fit where
  "gaussian_three \<equiv>
     GaussianFit
       (matrix_of_rows [Fin 0] [[Fin 1], [Fin 2], [Fin 1], [Fin 1], [Fin 3], [Fin 3]])
       [0, 0, 0, 1, 1, 2, 2]"

section \<open>Properties\<close>

text \<open>The defining equations that evaluate the models on concrete inputs.\<close>

lemmas eval_defs =
  MultinomialFit_def fitMultinomial_def fitMultinomial_class_def toMatrix_def unique_def
  matrix_def ids_of_def nth_opt_def mget_def get_def set_mat_def sum_js_def of_Int32_def
  num_sub_def Let_def count_matches_def predict_rows_multinomial_def assign_def
  argmax_scan_def logLik_predict_def prior_at_def elem_def matrix_of_rows_def
  logLik_predictOne_def logLik_predictProbs_B_def logLik_predictProbs_A_def
  predictProbs_rows_multinomial_def normalize_js_def exp_js_def subtract_def
  predictOne_multinomial_def GaussianFit_def fitGaussian_def fitGaussian_class_def mean_def
  stdev_def calcGaussianProb_def gaussian_val_def predictOne_gaussian_def mget_row_def
  predict_rows_gaussian_def

subsection \<open>Arithmetic of the number model\<close>

lemma num_add_assoc: "num_add (num_add a b) c = num_add a (num_add b c)"
  by (cases a; cases b; cases c) auto

lemma num_add_0_right: "num_add a (Fin 0) = a"
  by (cases a) auto

lemma fold_num_add:
  "fold (\<lambda>v s. num_add s v) xs a = num_add a (fold (\<lambda>v s. num_add s v) xs (Fin 0))"
proof (induction xs arbitrary: a)
  case Nil
  then show ?case by (simp add: num_add_0_right)
next
  case (Cons x xs)
  have "fold (\<lambda>v s. num_add s v) (x # xs) a =
          num_add (num_add a x) (fold (\<lambda>v s. num_add s v) xs (Fin 0))"
    using Cons.IH [of "num_add a x"] by simp
  also have "\<dots> = num_add a (num_add x (fold (\<lambda>v s. num_add s v) xs (Fin 0)))"
    by (simp add: num_add_assoc)
  also have "num_add x (fold (\<lambda>v s. num_add s v) xs (Fin 0)) =
          fold (\<lambda>v s. num_add s v) (x # xs) (Fin 0)"
    using Cons.IH [of "num_add (Fin 0) x"] Cons.IH [of x] by (cases x) auto
  finally show ?case .
qed

lemma fold_add_map: "fold (\<lambda>j s. num_add s (f j)) js a = num_add a (sum_js (map f js))"
proof -
  have "fold (\<lambda>j s. num_add s (f j)) js a = fold (\<lambda>v s. num_add s v) (map f js) a"
    by (simp add: fold_map comp_def)
  then show ?thesis
    using fold_num_add [of "map f js" a] by (simp add: sum_js_def)
qed

lemma sum_js_Fin: "sum_js (map Fin rs) = Fin (sum_list rs)"
proof -
  have "fold (\<lambda>v s. num_add s v) (map Fin rs) (Fin a) = Fin (a + sum_list rs)" for a
    by (induction rs arbitrary: a) (auto simp: algebra_simps)
  from this [of 0] show ?thesis by (simp add: sum_js_def)
qed

lemma num_ge_refl: "a \<noteq> NaN \<Longrightarrow> num_ge a a"
  by (simp add: num_ge_def)

lemma num_total: "a \<noteq> NaN \<Longrightarrow> b \<noteq> NaN \<Longrightarrow> num_gt a b \<or> num_ge b a"
  by (cases a; cases b) (auto simp: num_ge_def)

lemma num_gt_ge_trans: "num_gt a b \<Longrightarrow> num_ge b c \<Longrightarrow> num_gt a c"
  by (cases a; cases b; cases c) (auto simp: num_ge_def)

lemma num_ge_trans: "num_ge a b \<Longrightarrow> num_ge b c \<Longrightarrow> num_ge a c"
  by (cases a; cases b; cases c) (auto simp: num_ge_def)

lemma num_gt_imp_ge: "num_gt a b \<Longrightarrow> num_ge a b"
  by (simp add: num_ge_def)

lemma num_gt_NInf: "\<not> num_gt NInf b"
  by (cases b) simp_all

subsection \<open>The Gaussian log-likelihood\<close>

text \<open>
  C5. For every Gaussian model, observation \<open>v\<close> and class index \<open>i\<close>, the
  log-likelihood that \<open>calcGaussianProb\<close> returns is the prior of class \<open>i\<close> plus the sum
  over the features \<open>j < p\<close> of \<open>-0.5 * ln(2 * PI) * sigma[j][i] - 0.5 * (v[j] - mu[j][i]) /
  sigma[j][i]\<close>: the standard deviation is a factor of the first term and the residual is
  neither squared nor divided by the variance.
\<close>

theorem calcGaussianProb_formula:
  "calcGaussianProb this v i =
     num_add (prior_at this i)
       (sum_js (map (\<lambda>j.
          num_sub
            (num_mul (num_mul (Fin (- 0.5)) (ln_js (num_mul (Fin 2) (Fin pi))))
                     (get (sigma this) j i))
            (num_div (num_mul (Fin 0.5) (num_sub (elem v j) (get (mu this) j i)))
                     (get (sigma this) j i)))
        [0..<this_p this]))"
  unfolding calcGaussianProb_def gaussian_val_def by (rule fold_add_map)

text \<open>
  On finite parameters with non-zero standard deviations this is the real number
  \<open>prior + (\<Sum>j<p. - 0.5 * ln (2 * pi) * s j - 0.5 * (w j - m j) / s j)\<close>.
\<close>

lemma gaussian_val_finite:
  assumes "get (sigma this) j i = Fin s" and "s \<noteq> 0"
    and "get (mu this) j i = Fin m" and "elem v j = Fin w"
  shows "gaussian_val this v i j = Fin (- 0.5 * ln (2 * pi) * s - 0.5 * (w - m) / s)"
  using assms pi_gt_zero by (simp add: gaussian_val_def num_sub_def)

lemma calcGaussianProb_finite:
  assumes "prior_at this i = Fin pr"
    and "\<And>j. j < this_p this \<Longrightarrow>
           get (sigma this) j i = Fin (s j) \<and> s j \<noteq> 0 \<and>
           get (mu this) j i = Fin (m j) \<and> elem v j = Fin (w j)"
  shows "calcGaussianProb this v i =
           Fin (pr + (\<Sum>j<this_p this. - 0.5 * ln (2 * pi) * s j - 0.5 * (w j - m j) / s j))"
proof -
  have "k \<le> this_p this \<Longrightarrow>
          fold (\<lambda>j res. num_add res (gaussian_val this v i j)) [0..<k] (Fin pr) =
          Fin (pr + (\<Sum>j<k. - 0.5 * ln (2 * pi) * s j - 0.5 * (w j - m j) / s j))" for k
  proof (induction k)
    case 0
    then show ?case by simp
  next
    case (Suc k)
    then have "gaussian_val this v i k =
                 Fin (- 0.5 * ln (2 * pi) * s k - 0.5 * (w k - m k) / s k)"
      using assms(2) [of k] by (intro gaussian_val_finite) auto
    with Suc show ?case by simp
  qed
  from this [of "this_p this"] show ?thesis
    by (simp add: calcGaussianProb_def assms(1))
qed

subsection \<open>predictProbs on a matrix without rows\<close>

text \<open>
  C10. In both families \<open>predictProbs\<close> applied to a matrix with zero rows returns the
  array of length 1 whose only entry is \<open>undefined\<close>: \<open>ret\<close> is allocated by
  \<open>new Array( nrow )\<close> before \<open>nrow\<close> is assigned, and with no row nothing overwrites it.
\<close>

theorem predictProbs_zero_rows:
  "shape0 x = 0 \<Longrightarrow>
     predictProbs_multinomial m (Mat x) = Inr (ProbsRows [None]) \<and>
     predictProbs_gaussian g (Mat x) = Inr (ProbsRows [None])"
  by (simp add: predictProbs_rows_multinomial_def predictProbs_rows_gaussian_def)

theorem predictProbs_zero_rows_witness:
  "shape0 (matrix 0 2) = 0 \<and>
   predictProbs_multinomial (MultinomialFit (matrix 1 2) [0] (Number (Fin 1)))
     (Mat (matrix 0 2)) = Inr (ProbsRows [None]) \<and>
   length [None :: jsnum list option] = 1 \<and>
   predictProbs_gaussian (GaussianFit (matrix 1 2) [0]) (Mat (matrix 0 2)) =
     Inr (ProbsRows [None])"
  using predictProbs_zero_rows [of "matrix 0 2"
      "MultinomialFit (matrix 1 2) [0] (Number (Fin 1))" "GaussianFit (matrix 1 2) [0]"]
  by (simp add: matrix_def)

subsection \<open>The multinomial entry point\<close>

text \<open>
  C1. \<open>multinomNB( x, y )\<close> called without the options argument does not fit a model with
  \<open>alpha = 1\<close>: the guard \<open>arguments > 2\<close> is never true, and \<open>opts.alpha\<close> is then read
  from \<open>undefined\<close>, which throws.
\<close>

theorem multinomNB_without_opts:
  "multinomNB (ArrayLike (ArrArr [Fin 2, Fin 0] [[Fin 0, Fin 2]])) (ArrayLike [0, 1]) NoOpts =
     Inl PropertyOfUndefined"
  by (simp add: multinomNB_def toMatrix_def arguments_ToNumber_def)

text \<open>
  The same holds for every valid \<open>x\<close> and \<open>y\<close>, and an option that is not a number is
  not rejected: the check of \<open>opts.alpha\<close> is unreachable.
\<close>

lemma multinomNB_NoOpts_never_fits: "multinomNB x y NoOpts \<noteq> Inr fit"
  by (simp add: multinomNB_def arguments_ToNumber_def split: sum.splits jsarg.splits)

lemma check_x_not_InvalidOption: "check_x x \<noteq> Inl InvalidOption"
  by (cases x rule: check_x.cases) (simp_all add: toMatrix_def)

lemma multinomNB_never_InvalidOption: "multinomNB x y opts \<noteq> Inl InvalidOption"
  using check_x_not_InvalidOption [of x]
  by (cases opts rule: alpha_or_1.cases)
    (auto simp: multinomNB_def arguments_ToNumber_def split: sum.splits jsarg.splits)

lemma multinomNB_accepts_non_number:
  "multinomNB (ArrayLike (Mat x)) (ArrayLike y) (Opts (Some (Boolean True))) =
     Inr (MultinomialFit x y (Boolean True))"
  by (simp add: multinomNB_def arguments_ToNumber_def)

subsection \<open>predict on matrices and on single observations\<close>

lemma fold_assign_upt: "fold (\<lambda>i ret. assign ret i (f i)) [0..<n] [] = map f [0..<n]"
  by (induction n) (simp_all add: assign_def)

lemma get_mget_row: "i < shape0 x \<Longrightarrow> elem (mget_row x i) k = get x i k"
  by (simp add: elem_def mget_row_def get_def)

lemma logLik_predict_row:
  "i < shape0 x \<Longrightarrow> logLik_predict m x i j = logLik_predictOne m (mget_row x i) j"
  by (simp add: logLik_predict_def logLik_predictOne_def get_mget_row cong: if_cong)

lemma predict_rows_multinomial_map:
  "predict_rows_multinomial m x =
     map (\<lambda>i. predictOne_multinomial m (mget_row x i)) [0..<shape0 x]"
  by (simp add: predict_rows_multinomial_def predictOne_multinomial_def fold_assign_upt
      logLik_predict_row Let_def cong: map_cong)

lemma predict_rows_gaussian_map:
  "predict_rows_gaussian g x = map (\<lambda>i. predictOne_gaussian g (mget_row x i)) [0..<shape0 x]"
  by (simp add: predict_rows_gaussian_def predictOne_gaussian_def fold_assign_upt Let_def)

lemma mget_row_single: "mget_row (matrix_of_rows r []) 0 = r"
  by (rule nth_equalityI) (simp_all add: mget_row_def matrix_of_rows_def get_def elem_def)

text \<open>
  C9. In both families \<open>predict\<close> on a matrix returns one label per row, in row order,
  and the label at position \<open>i\<close> is \<open>predictOne\<close> of row \<open>i\<close>; an array of arrays is
  predicted as the matrix it converts to; \<open>predict\<close> on a single observation returns
  \<open>predictOne\<close> of it; so for a matrix with one row (a matrix object, or the array of arrays
  \<open>[v]\<close>) the result is the one-element array holding \<open>predict\<close> of that row.
\<close>

theorem predict_rowwise:
  "predict_multinomial m (Mat x) =
     Inr (Labels (map (\<lambda>i. predictOne_multinomial m (mget_row x i)) [0..<shape0 x])) \<and>
   predict_gaussian g (Mat x) =
     Inr (Labels (map (\<lambda>i. predictOne_gaussian g (mget_row x i)) [0..<shape0 x])) \<and>
   (toMatrix r rs = Inr x \<longrightarrow>
      predict_multinomial m (ArrArr r rs) = predict_multinomial m (Mat x) \<and>
      predict_gaussian g (ArrArr r rs) = predict_gaussian g (Mat x)) \<and>
   predict_multinomial m (Arr v) = Inr (Label (predictOne_multinomial m v)) \<and>
   predict_gaussian g (Arr v) = Inr (Label (predictOne_gaussian g v)) \<and>
   (shape0 x = 1 \<longrightarrow>
      predict_multinomial m (Mat x) = Inr (Labels [predictOne_multinomial m (mget_row x 0)]) \<and>
      predict_gaussian g (Mat x) = Inr (Labels [predictOne_gaussian g (mget_row x 0)])) \<and>
   predict_multinomial m (ArrArr v []) = Inr (Labels [predictOne_multinomial m v]) \<and>
   predict_gaussian g (ArrArr v []) = Inr (Labels [predictOne_gaussian g v])"
  using mget_row_single [of v]
  by (simp add: predict_rows_multinomial_map predict_rows_gaussian_map toMatrix_def)
    (simp add: matrix_of_rows_def)

theorem predict_rowwise_witness:
  "toMatrix [Fin 1] [] = Inr (matrix_of_rows [Fin 1] []) \<and>
   shape0 (matrix_of_rows [Fin 1] []) = 1 \<and>
   mget_row (matrix_of_rows [Fin 1] []) 0 = [Fin 1] \<and>
   predict_multinomial fit_single (Mat (matrix_of_rows [Fin 1] [])) = Inr (Labels [Some 0]) \<and>
   predict_multinomial fit_single (ArrArr [Fin 1] []) = Inr (Labels [Some 0]) \<and>
   predict_multinomial fit_single (Arr [Fin 1]) = Inr (Label (Some 0)) \<and>
   predict_gaussian gaussian_constant (Mat (matrix_of_rows [Fin 1] [])) = Inr (Labels [Some 0]) \<and>
   predict_gaussian gaussian_constant (ArrArr [Fin 1] []) = Inr (Labels [Some 0]) \<and>
   predict_gaussian gaussian_constant (Arr [Fin 1]) = Inr (Label (Some 0))"
  using predict_rowwise [of fit_single "matrix_of_rows [Fin 1] []" gaussian_constant
      "[Fin 1]" "[]" "[Fin 1]"]
  by (simp add: eval_defs)

subsection \<open>score\<close>

lemma count_matches_prefix:
  assumes "yhat \<noteq> Label None"
  shows "fold (\<lambda>i acc.
             case acc of
               Inl e \<Rightarrow> Inl e
             | Inr accuracy \<Rightarrow>
                 (case index_yhat yhat i of
                    Inl e \<Rightarrow> Inl e
                  | Inr v \<Rightarrow>
                      Inr (if v = Some (y ! i) then num_add accuracy (Fin 1) else accuracy)))
       [0..<k] (Inr (Fin 0)) =
     Inr (Fin (real (length (filter (\<lambda>i. index_yhat yhat i = Inr (Some (y ! i))) [0..<k]))))"
proof -
  have ix: "\<exists>v. index_yhat yhat i = Inr v" for i
    using assms by (cases "(yhat, i)" rule: index_yhat.cases) auto
  show ?thesis
  proof (induction k)
    case 0
    then show ?case by simp
  next
    case (Suc k)
    from ix [of k] obtain v where "index_yhat yhat k = Inr v" ..
    with Suc show ?case by simp
  qed
qed

lemma count_matches_eq:
  "yhat \<noteq> Label None \<Longrightarrow>
   count_matches yhat y =
     Inr (Fin (real (length (filter (\<lambda>i. index_yhat yhat i = Inr (Some (y ! i)))
                               [0..<length y]))))"
  unfolding count_matches_def by (rule count_matches_prefix)

lemma ratio_unit:
  assumes "c \<le> n" and "0 < n"
  shows "\<exists>r. num_div (Fin (real c)) (Fin (real n)) = Fin r \<and> 0 \<le> r \<and> r \<le> 1"
  using assms by (intro exI [of _ "real c / real n"]) simp

text \<open>
  C3, as the claim states it, fails: on an empty \<open>y\<close> the accuracy is \<open>0 / 0\<close>, which is
  \<open>NaN\<close> and not a number of the interval [0,1]. (First with the one row of the
  training data, then with a matrix without rows.)
\<close>

theorem score_empty_y_counterexample:
  "score (predict_multinomial fit_single) (ArrayLike (ArrArr [Fin 1] [])) (ArrayLike []) =
     Inr NaN \<and>
   score (predict_multinomial fit_single) (ArrayLike (Mat (matrix 0 1))) (ArrayLike []) =
     Inr NaN"
  by (simp add: eval_defs)

text \<open>
  C3, amended. \<open>score(x, y)\<close> throws a \<open>TypeError\<close> when \<open>x\<close> or \<open>y\<close> is not array-like.
  Otherwise, when \<open>predict(x)\<close> returns a prediction \<open>yhat\<close> (other than \<open>undefined\<close>), it
  returns the number of indices \<open>k < y.length\<close> with \<open>yhat[k] === y[k]\<close> divided by
  \<open>y.length\<close>; for a non-empty \<open>y\<close> this is a number of the interval [0,1], for an
  empty \<open>y\<close> it is \<open>NaN\<close>.
\<close>

theorem score_value:
  "score predict NotArrayLike y' = Inl InvalidFirstArgument \<and>
   score predict (ArrayLike x) NotArrayLike = Inl InvalidSecondArgument \<and>
   (predict x = Inr yhat \<and> yhat \<noteq> Label None \<longrightarrow>
      score predict (ArrayLike x) (ArrayLike y) =
        Inr (num_div
               (Fin (real (length (filter (\<lambda>k. index_yhat yhat k = Inr (Some (y ! k)))
                                     [0..<length y]))))
               (Fin (real (length y)))) \<and>
      (y \<noteq> [] \<longrightarrow>
         (\<exists>r. score predict (ArrayLike x) (ArrayLike y) = Inr (Fin r) \<and> 0 \<le> r \<and> r \<le> 1)) \<and>
      score predict (ArrayLike x) (ArrayLike []) = Inr NaN)"
proof -
  have "\<exists>r. num_div (Fin (real (length (filter P [0..<length y])))) (Fin (real (length y))) =
              Fin r \<and> 0 \<le> r \<and> r \<le> 1" if "y \<noteq> []" for P
  proof (rule ratio_unit)
    show "length (filter P [0..<length y]) \<le> length y"
      using length_filter_le [of P "[0..<length y]"] by simp
    show "0 < length y" using that by simp
  qed
  then show ?thesis by (simp add: count_matches_eq)
qed

theorem score_value_witness:
  "predict_multinomial fit_single (ArrArr [Fin 1] [[Fin 1]]) = Inr (Labels [Some 0, Some 0]) \<and>
   Labels [Some 0, Some 0] \<noteq> Label None \<and>
   [0, 1] \<noteq> ([] :: label list) \<and>
   score (predict_multinomial fit_single) (ArrayLike (ArrArr [Fin 1] [[Fin 1]]))
     (ArrayLike [0, 1]) = Inr (Fin (1 / 2)) \<and>
   (0 :: real) \<le> 1 / 2 \<and> (1 / 2 :: real) \<le> 1"
  using score_value [of "predict_multinomial fit_single" NotArrayLike
      "ArrArr [Fin 1] [[Fin 1]]" "Labels [Some 0, Some 0]" "[0, 1]"]
  by (simp add: eval_defs)

text \<open>
  C2, as the claim states it, fails: with one row predicted and two labels given, \<open>score\<close>
  raises nothing and returns \<open>1 / 2\<close>.
\<close>

theorem score_length_mismatch_counterexample:
  "predict_multinomial fit_single (ArrArr [Fin 1] []) = Inr (Labels [Some 0]) \<and>
   score (predict_multinomial fit_single) (ArrayLike (ArrArr [Fin 1] [])) (ArrayLike [0, 0]) =
     Inr (Fin (1 / 2))"
  by (simp add: eval_defs)

text \<open>
  C2, amended. \<open>score\<close> does not compare the number of predictions with the length of
  \<open>y\<close>: when \<open>predict(x)\<close> returns an array whose length differs from that of \<open>y\<close>, \<open>score\<close>
  still returns a number, the count of the positions \<open>k < y.length\<close> that hold a prediction
  equal to \<open>y[k]\<close>, divided by \<open>y.length\<close>.
\<close>

theorem score_length_mismatch:
  assumes "predict x = Inr (Labels yhat)" and "length yhat \<noteq> length y"
  shows "score predict (ArrayLike x) (ArrayLike y) =
           Inr (num_div
                  (Fin (real (length (filter (\<lambda>k. k < length yhat \<and> yhat ! k = Some (y ! k))
                                        [0..<length y]))))
                  (Fin (real (length y))))"
proof -
  have "(index_yhat (Labels yhat) k = Inr (Some (y ! k))) =
          (k < length yhat \<and> yhat ! k = Some (y ! k))" for k
    by (simp add: nth_opt_def)
  then show ?thesis using assms(1) by (simp add: count_matches_eq)
qed

theorem score_length_mismatch_witness:
  "predict_gaussian gaussian_constant (ArrArr [Fin 1] [[Fin 1]]) =
     Inr (Labels [Some 0, Some 0]) \<and>
   length [Some (0 :: label), Some 0] \<noteq> length [0 :: label] \<and>
   score (predict_gaussian gaussian_constant) (ArrayLike (ArrArr [Fin 1] [[Fin 1]]))
     (ArrayLike [0]) = Inr (Fin 1)"
  using score_length_mismatch [of "predict_gaussian gaussian_constant"
      "ArrArr [Fin 1] [[Fin 1]]" "[Some 0, Some 0]" "[0]"]
  by (simp add: eval_defs)

subsection \<open>The log-likelihoods inside predictProbs\<close>

text \<open>
  Case A of \<open>predictProbs\<close> computes the log-likelihoods of a row as \<open>predict\<close> does, and
  case B agrees with \<open>predictOne\<close> on every feature that is truthy or is a zero met by a
  finite table entry.
\<close>

lemma logLik_predictProbs_A_eq: "logLik_predictProbs_A m x i j = logLik_predict m x i j"
  by (simp add: logLik_predictProbs_A_def logLik_predict_def)

lemma logLik_predictOne_eq: "logLik_predictOne m v i = calcMultinomProb m v i"
  by (simp add: logLik_predictOne_def calcMultinomProb_def)

lemma logLik_predictProbs_B_eq:
  assumes "\<And>k. k < this_p m \<Longrightarrow>
             truthy (elem v k) \<or> (elem v k = Fin 0 \<and> (\<exists>c. get (cprob m) k j = Fin c))"
  shows "logLik_predictProbs_B m v j = logLik_predictOne m v j"
proof -
  have "num_mul (elem v k) (get (cprob m) k j) =
          (if truthy (elem v k) then num_mul (elem v k) (get (cprob m) k j) else Fin 0)"
    if "k < this_p m" for k
    using assms [OF that] by auto
  then have "n \<le> this_p m \<Longrightarrow>
      fold (\<lambda>k l. num_add l (num_mul (elem v k) (get (cprob m) k j))) [0..<n] a =
      fold (\<lambda>k l. num_add l
              (if truthy (elem v k) then num_mul (elem v k) (get (cprob m) k j) else Fin 0))
        [0..<n] a" for n a
    by (induction n) simp_all
  then show ?thesis
    by (simp add: logLik_predictProbs_B_def logLik_predictOne_def)
qed

text \<open>
  C6. The single-observation case of \<open>predictProbs\<close> has no short-circuit: it multiplies
  a zero feature with the table entry. On the model fitted with \<open>alpha = -1\<close>, where
  \<open>cprob[0][0]\<close> is \<open>-Infinity\<close>, the observation \<open>[0, 1]\<close> has log-likelihood \<open>0\<close> in
  \<open>predictOne\<close> and \<open>NaN\<close> in \<open>predictProbs\<close>, whose result is \<open>[NaN]\<close> for the vector
  and \<open>[[1]]\<close> for the same observation as a one-row matrix. The same happens with
  \<open>alpha = 1\<close> on the model fitted on a count of \<open>2147483648\<close>, whose table is \<open>NaN\<close>.
\<close>

theorem predictProbs_single_no_short_circuit:
  "get (cprob fit_negative_alpha) 0 0 = NInf \<and>
   logLik_predictOne fit_negative_alpha [Fin 0, Fin 1] 0 = Fin 0 \<and>
   logLik_predictProbs_B fit_negative_alpha [Fin 0, Fin 1] 0 = NaN \<and>
   predictProbs_multinomial fit_negative_alpha (Arr [Fin 0, Fin 1]) = Inr (Probs [NaN]) \<and>
   predictProbs_multinomial fit_negative_alpha (ArrArr [Fin 0, Fin 1] []) =
     Inr (ProbsRows [Some [Fin 1]]) \<and>
   get (cprob fit_large_count) 0 0 = NaN \<and>
   logLik_predictOne fit_large_count [Fin 0, Fin 0] 0 = Fin 0 \<and>
   logLik_predictProbs_B fit_large_count [Fin 0, Fin 0] 0 = NaN \<and>
   predictProbs_multinomial fit_large_count (Arr [Fin 0, Fin 0]) = Inr (Probs [NaN]) \<and>
   predictProbs_multinomial fit_large_count (ArrArr [Fin 0, Fin 0] []) =
     Inr (ProbsRows [Some [Fin 1]])"
  by (simp add: eval_defs)

subsection \<open>The probabilities of a single observation\<close>

lemma max_fold_props:
  assumes "\<forall>v\<in>set xs. v \<noteq> NaN" and "m \<noteq> NaN"
  shows "fold (\<lambda>v m. if num_gt v m then v else m) xs m \<in> insert m (set xs) \<and>
         num_ge (fold (\<lambda>v m. if num_gt v m then v else m) xs m) m \<and>
         (\<forall>v\<in>set xs. num_ge (fold (\<lambda>v m. if num_gt v m then v else m) xs m) v)"
  using assms
proof (induction xs arbitrary: m)
  case Nil
  then show ?case by (simp add: num_ge_refl)
next
  case (Cons x xs)
  let ?m = "if num_gt x m then x else m"
  have nn: "x \<noteq> NaN" "?m \<noteq> NaN" using Cons.prems by auto
  have ih: "fold (\<lambda>v m. if num_gt v m then v else m) xs ?m \<in> insert ?m (set xs) \<and>
         num_ge (fold (\<lambda>v m. if num_gt v m then v else m) xs ?m) ?m \<and>
         (\<forall>v\<in>set xs. num_ge (fold (\<lambda>v m. if num_gt v m then v else m) xs ?m) v)"
    using Cons.prems nn by (intro Cons.IH) auto
  have step: "num_ge ?m m \<and> num_ge ?m x"
    using num_total [OF nn(1) Cons.prems(2)] nn Cons.prems(2)
    by (auto simp: num_ge_refl intro: num_gt_imp_ge)
  show ?case
    using ih step by (auto intro: num_ge_trans)
qed

lemma max_js_finite:
  assumes "\<forall>l\<in>set ls. l \<noteq> NaN \<and> l \<noteq> PInf" and "\<exists>l\<in>set ls. l \<noteq> NInf"
  shows "\<exists>A. max_js ls = Fin A"
proof -
  from assms(2) obtain f where f: "f \<in> set ls" "f \<noteq> NInf" by blast
  then obtain x xs where ls: "ls = x # xs" by (cases ls) auto
  let ?r = "fold (\<lambda>v m. if num_gt v m then v else m) xs x"
  have props: "?r \<in> insert x (set xs) \<and> num_ge ?r x \<and> (\<forall>v\<in>set xs. num_ge ?r v)"
    using assms(1) by (intro max_fold_props) (auto simp: ls)
  then have "?r \<in> set ls" "num_ge ?r f"
    using f(1) by (auto simp: ls)
  moreover have "\<not> num_gt NInf f" by (rule num_gt_NInf)
  ultimately have "?r \<noteq> NaN" "?r \<noteq> PInf" "?r \<noteq> NInf"
    using assms(1) f(2) by (auto simp: num_ge_def)
  then show ?thesis by (cases ?r) (auto simp: ls)
qed

lemma normalize_js_probabilities:
  assumes ok: "\<forall>l\<in>set ls. l \<noteq> NaN \<and> l \<noteq> PInf" and some: "\<exists>l\<in>set ls. l \<noteq> NInf"
  shows "\<exists>ps. normalize_js ls = map Fin ps \<and> length ps = length ls \<and>
           (\<forall>p\<in>set ps. 0 \<le> p \<and> p \<le> 1)"
proof -
  from max_js_finite [OF assms] obtain A where a: "max_js ls = Fin A" ..
  define e where "e = (\<lambda>l. case l of Fin r \<Rightarrow> exp (r - A) | _ \<Rightarrow> 0)"
  define S where "S = (\<Sum>l\<leftarrow>ls. e l)"
  have shifted: "num_exp (num_sub l (Fin b)) = Fin (case l of Fin r \<Rightarrow> exp (r - b) | _ \<Rightarrow> 0)"
    if "l \<in> set ls" for l b
    using ok that by (cases l) (auto simp: num_sub_def)
  have "exp_js (subtract ls (Fin A)) = map Fin (map e ls)"
    by (simp add: exp_js_def subtract_def shifted e_def)
  then have S: "sum_js (exp_js (subtract ls (Fin A))) = Fin S"
    by (simp only: sum_js_Fin S_def)
  have e_nonneg: "0 \<le> e l" for l by (cases l) (simp_all add: e_def)
  have e_le: "e l \<le> S" if "l \<in> set ls" for l
    unfolding S_def using that e_nonneg by (intro member_le_sum_list) auto
  from some ok obtain r0 where r0: "Fin r0 \<in> set ls"
    by (metis jsnum.exhaust)
  have "0 < e (Fin r0)" by (simp add: e_def)
  with e_le [OF r0] have Spos: "0 < S" by simp
  then have denom: "num_add (Fin A) (ln_js (Fin S)) = Fin (A + ln S)" by simp
  define ps where "ps = map (\<lambda>l. e l * inverse S) ls"
  have entry: "(case l of Fin r \<Rightarrow> exp (r - (A + ln S)) | _ \<Rightarrow> 0) = e l * inverse S" for l
    using Spos by (cases l) (simp_all add: e_def diff_diff_eq [symmetric] exp_diff divide_inverse)
  have "normalize_js ls = exp_js (subtract ls (Fin (A + ln S)))"
    by (simp only: normalize_js_def Let_def a S denom)
  then have res: "normalize_js ls = map Fin ps"
    by (simp add: exp_js_def subtract_def shifted entry ps_def)
  have "0 \<le> e l * inverse S \<and> e l * inverse S \<le> 1" if "l \<in> set ls" for l
    using e_nonneg [of l] e_le [OF that] Spos
    by (simp add: divide_inverse [symmetric])
  then have "\<forall>p\<in>set ps. 0 \<le> p \<and> p \<le> 1" by (auto simp: ps_def)
  with res show ?thesis by (intro exI [of _ ps]) (simp add: ps_def)
qed

text \<open>
  C7, as the claim states it, fails: on the Gaussian model fitted on a class whose
  feature is constant (\<open>sigma = 0\<close>), the observation \<open>[1]\<close> has the log-likelihood
  \<open>0 / 0 = NaN\<close>, and \<open>predictProbs\<close> returns \<open>[NaN]\<close>, an entry outside [0,1].
\<close>

theorem predictProbs_degenerate_counterexample:
  "get (sigma gaussian_constant) 0 0 = Fin 0 \<and>
   calcGaussianProb gaussian_constant [Fin 1] 0 = NaN \<and>
   predictProbs_gaussian gaussian_constant (Arr [Fin 1]) = Inr (Probs [NaN])"
  by (simp add: eval_defs)

text \<open>
  C7, amended. In both families \<open>predictProbs\<close> of a single observation returns, in
  class order, \<open>exp(loglik_i - logNormalizer)\<close> with \<open>a = max(loglik)\<close> and
  \<open>logNormalizer = a + ln(sum_i exp(loglik_i - a))\<close>; when no log-likelihood is \<open>NaN\<close> or
  \<open>+Infinity\<close> and at least one is not \<open>-Infinity\<close>, every entry lies in [0,1]. Nothing
  is stated about the sum of the entries: how far it is from 1 depends on the rounding of
  \<open>a + ln(...)\<close>, which the number model does not represent.
\<close>

theorem predictProbs_single:
  "predictProbs_multinomial m (Arr v) =
     Inr (Probs (map (\<lambda>l. num_exp (num_sub l
            (num_add (max_js (map (logLik_predictProbs_B m v) [0..<nclass m]))
               (ln_js (sum_js (map (\<lambda>l'. num_exp (num_sub l'
                   (max_js (map (logLik_predictProbs_B m v) [0..<nclass m]))))
                 (map (logLik_predictProbs_B m v) [0..<nclass m])))))))
          (map (logLik_predictProbs_B m v) [0..<nclass m]))) \<and>
   predictProbs_gaussian g (Arr v) =
     Inr (Probs (map (\<lambda>l. num_exp (num_sub l
            (num_add (max_js (map (calcGaussianProb g v) [0..<nclass g]))
               (ln_js (sum_js (map (\<lambda>l'. num_exp (num_sub l'
                   (max_js (map (calcGaussianProb g v) [0..<nclass g]))))
                 (map (calcGaussianProb g v) [0..<nclass g])))))))
          (map (calcGaussianProb g v) [0..<nclass g]))) \<and>
   ((\<forall>j<nclass m. logLik_predictProbs_B m v j \<noteq> NaN \<and> logLik_predictProbs_B m v j \<noteq> PInf) \<and>
    (\<exists>j<nclass m. logLik_predictProbs_B m v j \<noteq> NInf) \<longrightarrow>
      (\<exists>ps. predictProbs_multinomial m (Arr v) = Inr (Probs (map Fin ps)) \<and>
         length ps = nclass m \<and> (\<forall>p\<in>set ps. 0 \<le> p \<and> p \<le> 1))) \<and>
   ((\<forall>j<nclass g. calcGaussianProb g v j \<noteq> NaN \<and> calcGaussianProb g v j \<noteq> PInf) \<and>
    (\<exists>j<nclass g. calcGaussianProb g v j \<noteq> NInf) \<longrightarrow>
      (\<exists>ps. predictProbs_gaussian g (Arr v) = Inr (Probs (map Fin ps)) \<and>
         length ps = nclass g \<and> (\<forall>p\<in>set ps. 0 \<le> p \<and> p \<le> 1)))"
proof -
  have fin: "\<exists>ps. normalize_js (map f [0..<n]) = map Fin ps \<and> length ps = n \<and>
               (\<forall>p\<in>set ps. 0 \<le> p \<and> p \<le> 1)"
    if "\<forall>j<n. f j \<noteq> NaN \<and> f j \<noteq> PInf" and "\<exists>j<n. f j \<noteq> NInf" for f and n :: nat
  proof -
    have "\<forall>l\<in>set (map f [0..<n]). l \<noteq> NaN \<and> l \<noteq> PInf"
      using that(1) by auto
    moreover have "\<exists>l\<in>set (map f [0..<n]). l \<noteq> NInf"
      using that(2) by auto
    ultimately show ?thesis
      using normalize_js_probabilities [of "map f [0..<n]"] by simp
  qed
  show ?thesis
    using fin [of "nclass m" "logLik_predictProbs_B m v"]
      fin [of "nclass g" "calcGaussianProb g v"]
    by (simp add: normalize_js_def exp_js_def subtract_def Let_def comp_def)
qed

theorem predictProbs_single_witness:
  "nclass fit_single = 1 \<and>
   logLik_predictProbs_B fit_single [Fin 1] 0 = Fin 0 \<and>
   predictProbs_multinomial fit_single (Arr [Fin 1]) = Inr (Probs [Fin 1]) \<and>
   nclass gaussian_mixed = 2 \<and>
   calcGaussianProb gaussian_mixed [Fin 2] 0 = NInf \<and>
   calcGaussianProb gaussian_mixed [Fin 2] 1 \<noteq> NaN \<and>
   calcGaussianProb gaussian_mixed [Fin 2] 1 \<noteq> PInf \<and>
   calcGaussianProb gaussian_mixed [Fin 2] 1 \<noteq> NInf \<and>
   predictProbs_gaussian gaussian_mixed (Arr [Fin 2]) = Inr (Probs [Fin 0, Fin 1])"
  using predictProbs_single [of fit_single "[Fin 1]" gaussian_mixed]
    predictProbs_single [of fit_single "[Fin 2]" gaussian_mixed]
  by (simp add: eval_defs)

subsection \<open>The class that predictOne returns\<close>

text \<open>
  The scan keeps a running maximum that a \<open>NaN\<close> entry never replaces. When the first
  entry is not \<open>NaN\<close>, the pair after \<open>k\<close> steps belongs to the first index that is
  greatest among the entries that are not \<open>NaN\<close>.
\<close>

lemma argmax_scan_prefix:
  assumes "k \<le> length ll" and "length ll \<le> length cls" and "0 < k"
    and "ll ! 0 \<noteq> NaN"
  shows "\<exists>i<k. fold (\<lambda>i (max, argmax).
                  let val = elem ll i
                  in if num_gt val max then (val, nth_opt cls i) else (max, argmax))
            [0..<k] (elem ll 0, nth_opt cls 0) = (ll ! i, Some (cls ! i)) \<and>
           ll ! i \<noteq> NaN \<and>
           (\<forall>j<k. ll ! j \<noteq> NaN \<longrightarrow> num_ge (ll ! i) (ll ! j)) \<and>
           (\<forall>j<i. ll ! j \<noteq> NaN \<longrightarrow> num_gt (ll ! i) (ll ! j))"
  using assms(1,3)
proof (induction k)
  case 0
  then show ?case by simp
next
  case (Suc k)
  show ?case
  proof (cases "k = 0")
    case True
    with Suc.prems assms(2) have "0 < length ll" "0 < length cls" by auto
    with True assms(4) show ?thesis
      by (cases "ll ! 0") (auto simp: elem_def nth_opt_def num_ge_def)
  next
    case False
    with Suc obtain i where i: "i < k"
      and st: "fold (\<lambda>i (max, argmax).
                  let val = elem ll i
                  in if num_gt val max then (val, nth_opt cls i) else (max, argmax))
            [0..<k] (elem ll 0, nth_opt cls 0) = (ll ! i, Some (cls ! i))"
      and nn: "ll ! i \<noteq> NaN"
      and ge: "\<forall>j<k. ll ! j \<noteq> NaN \<longrightarrow> num_ge (ll ! i) (ll ! j)"
      and gt: "\<forall>j<i. ll ! j \<noteq> NaN \<longrightarrow> num_gt (ll ! i) (ll ! j)"
      by auto
    have k: "k < length ll" "k < length cls" using Suc.prems assms(2) by auto
    then have ek: "elem ll k = ll ! k" "nth_opt cls k = Some (cls ! k)"
      by (simp_all add: elem_def nth_opt_def)
    show ?thesis
    proof (cases "num_gt (ll ! k) (ll ! i)")
      case True
      then have nk: "ll ! k \<noteq> NaN" by (cases "ll ! k") auto
      have "\<forall>j<Suc k. ll ! j \<noteq> NaN \<longrightarrow> num_ge (ll ! k) (ll ! j)"
        using True ge nk
        by (auto simp: less_Suc_eq num_ge_refl intro: num_gt_imp_ge num_gt_ge_trans)
      moreover have "\<forall>j<k. ll ! j \<noteq> NaN \<longrightarrow> num_gt (ll ! k) (ll ! j)"
        using True ge by (auto intro: num_gt_ge_trans)
      ultimately show ?thesis using True st ek nk by (intro exI [of _ k]) simp
    next
      case False
      then have "ll ! k \<noteq> NaN \<longrightarrow> num_ge (ll ! i) (ll ! k)"
        using num_total [of "ll ! k" "ll ! i"] nn by auto
      then have "\<forall>j<Suc k. ll ! j \<noteq> NaN \<longrightarrow> num_ge (ll ! i) (ll ! j)"
        using ge by (auto simp: less_Suc_eq)
      then show ?thesis using False st ek gt i nn by (intro exI [of _ i]) simp
    qed
  qed
qed

lemma argmax_scan_first_max:
  assumes "0 < length cls" and "f 0 \<noteq> NaN"
  shows "\<exists>i<length cls. argmax_scan cls (map f [0..<length cls]) (length cls) = Some (cls ! i) \<and>
           f i \<noteq> NaN \<and>
           (\<forall>j<length cls. f j \<noteq> NaN \<longrightarrow> num_ge (f i) (f j)) \<and>
           (\<forall>j<i. f j \<noteq> NaN \<longrightarrow> num_gt (f i) (f j))"
proof -
  let ?ll = "map f [0..<length cls]"
  have "\<exists>i<length cls. fold (\<lambda>i (max, argmax).
                  let val = elem ?ll i
                  in if num_gt val max then (val, nth_opt cls i) else (max, argmax))
            [0..<length cls] (elem ?ll 0, nth_opt cls 0) = (?ll ! i, Some (cls ! i)) \<and>
           ?ll ! i \<noteq> NaN \<and>
           (\<forall>j<length cls. ?ll ! j \<noteq> NaN \<longrightarrow> num_ge (?ll ! i) (?ll ! j)) \<and>
           (\<forall>j<i. ?ll ! j \<noteq> NaN \<longrightarrow> num_gt (?ll ! i) (?ll ! j))"
    using assms by (intro argmax_scan_prefix) auto
  then show ?thesis by (auto simp: argmax_scan_def)
qed

text \<open>
  C8, as the claim states it, fails: on the Gaussian model \<open>gaussian_mixed\<close> the
  observation \<open>[1]\<close> has the log-likelihoods \<open>[NaN, finite]\<close> (class 0 is constant and
  observed at its mean, \<open>0 / 0\<close>). The running maximum starts as \<open>NaN\<close>, no comparison
  with it is true, and \<open>predictOne\<close> returns class 0, whose log-likelihood is not the
  maximum: the only comparable log-likelihood is that of class 1.
\<close>

theorem predictOne_NaN_counterexample:
  "classes gaussian_mixed = [0, 1] \<and>
   calcGaussianProb gaussian_mixed [Fin 1] 0 = NaN \<and>
   calcGaussianProb gaussian_mixed [Fin 1] 1 = Fin (ln (3 / 5) - ln (2 * pi) / 2) \<and>
   predictOne_gaussian gaussian_mixed [Fin 1] = Some 0 \<and>
   \<not> num_ge (calcGaussianProb gaussian_mixed [Fin 1] 0)
            (calcGaussianProb gaussian_mixed [Fin 1] 1)"
  by (simp add: eval_defs num_ge_def)

text \<open>
  C8, amended. In both families, when the model has at least one class and the
  log-likelihood of the first class is not \<open>NaN\<close>, \<open>predictOne\<close> returns the class label
  at the first class index that attains the maximum of the log-likelihoods that are not
  \<open>NaN\<close> (a \<open>NaN\<close> entry is never greater than the running maximum and is passed over):
  that entry is greater than or equal to every such entry and strictly greater than every
  earlier one, so of two classes with identical maximal log-likelihood the lower-indexed
  is returned.
\<close>

theorem predictOne_first_max:
  "(classes m \<noteq> [] \<and> logLik_predictOne m v 0 \<noteq> NaN \<longrightarrow>
      (\<exists>i<length (classes m).
         predictOne_multinomial m v = Some (classes m ! i) \<and>
         logLik_predictOne m v i \<noteq> NaN \<and>
         (\<forall>j<length (classes m). logLik_predictOne m v j \<noteq> NaN \<longrightarrow>
            num_ge (logLik_predictOne m v i) (logLik_predictOne m v j)) \<and>
         (\<forall>j<i. logLik_predictOne m v j \<noteq> NaN \<longrightarrow>
            num_gt (logLik_predictOne m v i) (logLik_predictOne m v j)))) \<and>
   (classes g \<noteq> [] \<and> calcGaussianProb g v 0 \<noteq> NaN \<longrightarrow>
      (\<exists>i<length (classes g).
         predictOne_gaussian g v = Some (classes g ! i) \<and>
         calcGaussianProb g v i \<noteq> NaN \<and>
         (\<forall>j<length (classes g). calcGaussianProb g v j \<noteq> NaN \<longrightarrow>
            num_ge (calcGaussianProb g v i) (calcGaussianProb g v j)) \<and>
         (\<forall>j<i. calcGaussianProb g v j \<noteq> NaN \<longrightarrow>
            num_gt (calcGaussianProb g v i) (calcGaussianProb g v j))))"
  using argmax_scan_first_max [of "classes m" "logLik_predictOne m v"]
    argmax_scan_first_max [of "classes g" "calcGaussianProb g v"]
  by (simp add: predictOne_multinomial_def predictOne_gaussian_def Let_def)

theorem predictOne_first_max_witness:
  "classes fit_tie = [0, 1] \<and>
   logLik_predictOne fit_tie [Fin 1] 0 \<noteq> NaN \<and>
   logLik_predictOne fit_tie [Fin 1] 1 = logLik_predictOne fit_tie [Fin 1] 0 \<and>
   predictOne_multinomial fit_tie [Fin 1] = Some 0 \<and>
   classes gaussian_three = [0, 1, 2] \<and>
   calcGaussianProb gaussian_three [Fin 1] 0 = Fin (ln (3 / 7) - ln (2 * pi) / 2) \<and>
   calcGaussianProb gaussian_three [Fin 1] 1 = NaN \<and>
   calcGaussianProb gaussian_three [Fin 1] 2 = PInf \<and>
   predictOne_gaussian gaussian_three [Fin 1] = Some 2"
  using predictOne_first_max [of fit_tie "[Fin 1]" gaussian_three]
  by (simp add: eval_defs)

subsection \<open>The parameters of the multinomial fit\<close>

lemma of_Int32_ToInt32_count:
  assumes "k < 2 ^ 31"
  shows "of_Int32 (ToInt32 (Fin (real k))) = Fin (real k)"
proof -
  have less: "int k < 2 ^ 31"
    using assms by (metis of_nat_less_iff of_nat_numeral of_nat_power)
  have "sint (word_of_int (int k) :: 32 word) = signed_take_bit (LENGTH(32) - 1) (int k)"
    by (rule sint_sbintrunc')
  also have "\<dots> = int k"
    using less by (intro signed_take_bit_int_eq_self) simp_all
  finally have "sint (word_of_nat k :: 32 word) = int k" by simp
  then show ?thesis by (simp add: of_Int32_def)
qed

lemma real_sum_list: "(\<Sum>x\<leftarrow>xs. real (f x)) = real (\<Sum>x\<leftarrow>xs. f x)"
  by (induction xs) simp_all

lemma sum_js_counts:
  assumes "\<And>r. r \<in> set ids \<Longrightarrow> get x r j = Fin (real (cnt r j))"
  shows "sum_js (mget x ids j) = Fin (real (\<Sum>r\<leftarrow>ids. cnt r j))"
proof -
  have "mget x ids j = map Fin (map (\<lambda>r. real (cnt r j)) ids)"
    using assms by (simp add: mget_def)
  moreover have "sum_list (map (\<lambda>r. real (cnt r j)) ids) = real (\<Sum>r\<leftarrow>ids. cnt r j)"
    by (induction ids) simp_all
  ultimately show ?thesis by (simp only: sum_js_Fin)
qed

lemma fold_set_mat_column:
  assumes "i < shape1 cp" and "q \<le> shape0 cp"
  shows "shape0 (fold (\<lambda>j cp. set_mat cp j i (V j)) [0..<q] cp) = shape0 cp \<and>
         shape1 (fold (\<lambda>j cp. set_mat cp j i (V j)) [0..<q] cp) = shape1 cp \<and>
         get (fold (\<lambda>j cp. set_mat cp j i (V j)) [0..<q] cp) j' i' =
           (if i' = i \<and> j' < q then V j' else get cp j' i')"
  using assms(2)
proof (induction q)
  case 0
  then show ?case by simp
next
  case (Suc q)
  then show ?case using assms(1) by (auto simp: set_mat_def get_def)
qed

lemma class_loop:
  fixes c :: "nat \<Rightarrow> label"
  assumes "k \<le> K"
  shows "\<exists>pr cp.
           fold (\<lambda>i (pr, cp). (pr(c i \<mapsto> P (c i)),
                    fold (\<lambda>j cp. set_mat cp j i (V i j)) [0..<p] cp))
             [0..<k] (pr0, matrix p K) = (pr, cp) \<and>
           shape0 cp = p \<and> shape1 cp = K \<and>
           (\<forall>i<k. pr (c i) = Some (P (c i)) \<and> (\<forall>j<p. get cp j i = V i j))"
    (is "\<exists>pr cp. fold ?F [0..<k] ?init = (pr, cp) \<and> _")
  using assms
proof (induction k)
  case 0
  then show ?case by (simp add: matrix_def)
next
  case (Suc k)
  then have "k \<le> K" by simp
  from Suc.IH [OF this] obtain pr cp where st: "fold ?F [0..<k] ?init = (pr, cp)"
    and sh: "shape0 cp = p" "shape1 cp = K"
    and inv: "\<forall>i<k. pr (c i) = Some (P (c i)) \<and> (\<forall>j<p. get cp j i = V i j)"
    by blast
  let ?cp = "fold (\<lambda>j cp. set_mat cp j k (V k j)) [0..<p] cp"
  have col: "shape0 ?cp = p \<and> shape1 ?cp = K \<and>
             get ?cp j' i' = (if i' = k \<and> j' < p then V k j' else get cp j' i')" for j' i'
    using fold_set_mat_column [of k cp p "V k" j' i'] sh Suc.prems by simp
  have step: "fold ?F [0..<Suc k] ?init = (pr(c k \<mapsto> P (c k)), ?cp)"
    by (simp add: st)
  have inv': "\<forall>i<Suc k. (pr(c k \<mapsto> P (c k))) (c i) = Some (P (c i)) \<and>
                   (\<forall>j<p. get ?cp j i = V i j)"
    using inv col by (auto simp: less_Suc_eq)
  show ?case
  proof (intro exI conjI)
    show "fold ?F [0..<Suc k] ?init = (pr(c k \<mapsto> P (c k)), ?cp)" by (rule step)
    show "shape0 ?cp = p" using col by blast
    show "shape1 ?cp = K" using col by blast
    show "\<forall>i<Suc k. (pr(c k \<mapsto> P (c k))) (c i) = Some (P (c i)) \<and>
                   (\<forall>j<p. get ?cp j i = V i j)" by (rule inv')
  qed
qed

lemma ids_of_rows:
  "length y = n \<Longrightarrow> ids_of n y c = filter (\<lambda>r. y ! r = c) [0..<length y]"
  by (auto simp: ids_of_def nth_opt_def intro: filter_cong)

lemma unique_set: "set (unique y) = set y"
  by (simp add: unique_def)

lemma fitMultinomial_class_counts:
  fixes cnt :: "nat \<Rightarrow> nat \<Rightarrow> nat"
  assumes cnt: "\<And>r j. r < this_n this \<Longrightarrow> j < this_p this \<Longrightarrow> get x r j = Fin (real (cnt r j))"
    and bound: "\<And>j. j < this_p this \<Longrightarrow>
                 (\<Sum>r\<leftarrow>ids_of (this_n this) y (classes this ! i). cnt r j) < 2 ^ 31"
  shows "fitMultinomial_class this x y i (pr, cp) =
     (pr(classes this ! i \<mapsto>
          ln_js (num_div (Fin (real (length (ids_of (this_n this) y (classes this ! i)))))
                         (Fin (real (this_n this))))),
      fold (\<lambda>j cp. set_mat cp j i
              (num_sub
                 (ln_js (num_add
                    (Fin (real (\<Sum>r\<leftarrow>ids_of (this_n this) y (classes this ! i). cnt r j)))
                    (ToNumber (alpha this))))
                 (ln_js (num_add
                    (Fin (real (\<Sum>j'\<leftarrow>[0..<this_p this].
                              \<Sum>r\<leftarrow>ids_of (this_n this) y (classes this ! i). cnt r j')))
                    (num_mul (Fin (real (this_p this))) (ToNumber (alpha this)))))))
        [0..<this_p this] cp)"
proof -
  define ids where "ids = ids_of (this_n this) y (classes this ! i)"
  define C where "C = (\<lambda>j. \<Sum>r\<leftarrow>ids. cnt r j)"
  define counts where "counts = map (\<lambda>j. ToInt32 (sum_js (mget x ids j))) [0..<this_p this]"
  have rows: "r < this_n this" if "r \<in> set ids" for r
    using that by (simp add: ids_def ids_of_def)
  have gathered: "sum_js (mget x ids j) = Fin (real (C j))" if "j < this_p this" for j
    unfolding C_def using cnt rows that by (intro sum_js_counts) simp
  have conv: "of_Int32 (ToInt32 (Fin (real (C j)))) = Fin (real (C j))" if "j < this_p this" for j
  proof -
    have "C j < 2 ^ 31"
      using bound [OF that] by (simp add: C_def ids_def)
    then show ?thesis by (rule of_Int32_ToInt32_count)
  qed
  have cnts: "counts = map (\<lambda>j. ToInt32 (Fin (real (C j)))) [0..<this_p this]"
    using gathered by (simp add: counts_def)
  have count: "of_Int32 (counts ! j) = Fin (real (C j))" if "j < this_p this" for j
    using that conv [OF that] by (simp only: cnts nth_map_upt length_upt diff_zero add_0)
  have "map of_Int32 counts = map (\<lambda>j. of_Int32 (ToInt32 (Fin (real (C j))))) [0..<this_p this]"
    by (simp only: cnts map_map comp_def)
  also have "\<dots> = map (\<lambda>j. Fin (real (C j))) [0..<this_p this]"
    by (rule map_cong) (simp_all only: conv atLeast_upt [symmetric] lessThan_iff refl)
  finally have "map of_Int32 counts = map Fin (map (\<lambda>j. real (C j)) [0..<this_p this])"
    by (simp only: map_map comp_def)
  then have "sum_js (map of_Int32 counts) = Fin (\<Sum>j\<leftarrow>[0..<this_p this]. real (C j))"
    by (simp only: sum_js_Fin)
  also have "(\<Sum>j\<leftarrow>[0..<this_p this]. real (C j)) = real (\<Sum>j\<leftarrow>[0..<this_p this]. C j)"
    by (rule real_sum_list)
  finally have total: "sum_js (map of_Int32 counts) = Fin (real (\<Sum>j\<leftarrow>[0..<this_p this]. C j))" .
  have inner: "fold (\<lambda>j cp. set_mat cp j i (f (of_Int32 (counts ! j)))) [0..<this_p this] cp =
        fold (\<lambda>j cp. set_mat cp j i (f (Fin (real (C j))))) [0..<this_p this] cp" for f
    by (intro fold_cong) (auto simp: count)
  have "fitMultinomial_class this x y i (pr, cp) =
     (pr(classes this ! i \<mapsto>
          ln_js (num_div (Fin (real (length ids))) (Fin (real (this_n this))))),
      fold (\<lambda>j cp. set_mat cp j i
              ((\<lambda>v. num_sub (ln_js (num_add v (ToNumber (alpha this))))
                 (ln_js (num_add (sum_js (map of_Int32 counts))
                    (num_mul (Fin (real (this_p this))) (ToNumber (alpha this))))))
               (of_Int32 (counts ! j))))
        [0..<this_p this] cp)"
    unfolding fitMultinomial_class_def Let_def counts_def ids_def by simp
  also have "\<dots> =
     (pr(classes this ! i \<mapsto>
          ln_js (num_div (Fin (real (length ids))) (Fin (real (this_n this))))),
      fold (\<lambda>j cp. set_mat cp j i
              (num_sub (ln_js (num_add (Fin (real (C j))) (ToNumber (alpha this))))
                 (ln_js (num_add (Fin (real (\<Sum>j\<leftarrow>[0..<this_p this]. C j)))
                    (num_mul (Fin (real (this_p this))) (ToNumber (alpha this)))))))
        [0..<this_p this] cp)"
    using inner [of "\<lambda>v. num_sub (ln_js (num_add v (ToNumber (alpha this))))
                 (ln_js (num_add (Fin (real (\<Sum>j\<leftarrow>[0..<this_p this]. C j)))
                    (num_mul (Fin (real (this_p this))) (ToNumber (alpha this)))))"]
    by (simp only: total)
  finally show ?thesis unfolding C_def ids_def .
qed

text \<open>
  C4, as the claim states it, fails: \<open>counts\<close> is an \<open>Int32Array\<close>, so a column sum of
  \<open>2147483648\<close> is stored as \<open>-2147483648\<close>. On \<open>x = [[2147483648, 0]]\<close>, \<open>y = [0]\<close>,
  \<open>alpha = 1\<close> the fitted \<open>cprob[0][0]\<close> is \<open>NaN\<close>, where the claim gives
  \<open>ln(2147483648 + 1) - ln(2147483648 + 2 * 1)\<close>.
\<close>

theorem MultinomialFit_overflow_counterexample:
  "get (matrix_of_rows [Fin 2147483648, Fin 0] []) 0 0 = Fin 2147483648 \<and>
   get (cprob fit_large_count) 0 0 = NaN \<and>
   num_sub (ln_js (num_add (Fin 2147483648) (Fin 1)))
           (ln_js (num_add (Fin 2147483648) (num_mul (Fin 2) (Fin 1)))) =
     Fin (ln 2147483649 - ln 2147483650) \<and>
   get (cprob fit_large_count) 0 0 \<noteq>
     num_sub (ln_js (num_add (Fin 2147483648) (Fin 1)))
             (ln_js (num_add (Fin 2147483648) (num_mul (Fin 2) (Fin 1))))"
  by (simp add: eval_defs)

text \<open>
  C4, amended. After fitting the multinomial model on \<open>(x, y, alpha)\<close>, with \<open>x\<close> an
  \<open>n\<close>-by-\<open>p\<close> matrix of non-negative integer counts \<open>cnt r j\<close> and \<open>y\<close> of length \<open>n\<close>,
  and provided that every sum of a column over the rows of one class is below \<open>2^31\<close>:
  the classes are the distinct labels of \<open>y\<close>; for every class index \<open>i\<close> the prior of
  \<open>classes[i]\<close> is \<open>ln(nc / n)\<close>, \<open>nc\<close> the number of rows labelled \<open>classes[i]\<close>; and for
  every feature \<open>j\<close>, \<open>cprob[j][i] = ln(counts[j] + alpha) - ln(totalCount + p * alpha)\<close>,
  where \<open>counts[j]\<close> sums \<open>x[row][j]\<close> over those rows and \<open>totalCount\<close> sums \<open>counts\<close>
  over the features.
\<close>

theorem MultinomialFit_parameters:
  fixes cnt :: "nat \<Rightarrow> nat \<Rightarrow> nat"
  assumes cnt: "\<And>r j. r < shape0 x \<Longrightarrow> j < shape1 x \<Longrightarrow> get x r j = Fin (real (cnt r j))"
    and len: "length y = shape0 x"
    and bound: "\<And>c j. c \<in> set y \<Longrightarrow> j < shape1 x \<Longrightarrow>
                  (\<Sum>r\<leftarrow>filter (\<lambda>r. y ! r = c) [0..<length y]. cnt r j) < 2 ^ 31"
    and i: "i < length (unique y)" and j: "j < shape1 x"
  shows "classes (MultinomialFit x y (Number a)) = unique y \<and>
     nclass (MultinomialFit x y (Number a)) = length (unique y) \<and>
     prior (MultinomialFit x y (Number a)) (unique y ! i) =
       Some (ln_js (num_div
         (Fin (real (length (filter (\<lambda>r. y ! r = unique y ! i) [0..<length y]))))
         (Fin (real (shape0 x))))) \<and>
     get (cprob (MultinomialFit x y (Number a))) j i =
       num_sub
         (ln_js (num_add
            (Fin (real (\<Sum>r\<leftarrow>filter (\<lambda>r. y ! r = unique y ! i) [0..<length y]. cnt r j))) a))
         (ln_js (num_add
            (Fin (real (\<Sum>j'\<leftarrow>[0..<shape1 x].
                      \<Sum>r\<leftarrow>filter (\<lambda>r. y ! r = unique y ! i) [0..<length y]. cnt r j')))
            (num_mul (Fin (real (shape1 x))) a)))"
proof -
  define fit0 where "fit0 =
    \<lparr>this_n = shape0 x, this_p = shape1 x, classes = unique y,
     nclass = length (unique y), prior = Map.empty,
     alpha = Number a, cprob = matrix 0 0\<rparr>"
  define rows where "rows = (\<lambda>c. filter (\<lambda>r. y ! r = c) [0..<length y])"
  define P where "P = (\<lambda>c. ln_js (num_div (Fin (real (length (rows c)))) (Fin (real (shape0 x)))))"
  define V where "V = (\<lambda>i j. num_sub
         (ln_js (num_add (Fin (real (\<Sum>r\<leftarrow>rows (unique y ! i). cnt r j))) a))
         (ln_js (num_add
            (Fin (real (\<Sum>j'\<leftarrow>[0..<shape1 x]. \<Sum>r\<leftarrow>rows (unique y ! i). cnt r j')))
            (num_mul (Fin (real (shape1 x))) a))))"
  have ids: "ids_of (this_n fit0) y c = rows c" for c
    using len by (simp add: fit0_def rows_def ids_of_rows)
  have step: "fitMultinomial_class fit0 x y k =
      (\<lambda>(pr, cp). (pr(unique y ! k \<mapsto> P (unique y ! k)),
                    fold (\<lambda>j cp. set_mat cp j k (V k j)) [0..<shape1 x] cp))"
    if "k < length (unique y)" for k
  proof (rule ext, clarify)
    fix pr cp
    have c: "unique y ! k \<in> set y"
      using that unique_set [of y] nth_mem [of k "unique y"] by simp
    have "fitMultinomial_class fit0 x y k (pr, cp) =
     (pr(classes fit0 ! k \<mapsto>
          ln_js (num_div (Fin (real (length (ids_of (this_n fit0) y (classes fit0 ! k)))))
                         (Fin (real (this_n fit0))))),
      fold (\<lambda>j cp. set_mat cp j k
              (num_sub
                 (ln_js (num_add
                    (Fin (real (\<Sum>r\<leftarrow>ids_of (this_n fit0) y (classes fit0 ! k). cnt r j)))
                    (ToNumber (alpha fit0))))
                 (ln_js (num_add
                    (Fin (real (\<Sum>j'\<leftarrow>[0..<this_p fit0].
                              \<Sum>r\<leftarrow>ids_of (this_n fit0) y (classes fit0 ! k). cnt r j')))
                    (num_mul (Fin (real (this_p fit0))) (ToNumber (alpha fit0)))))))
        [0..<this_p fit0] cp)"
    proof (rule fitMultinomial_class_counts)
      show "get x r j = Fin (real (cnt r j))" if "r < this_n fit0" "j < this_p fit0" for r j
        using that cnt by (simp add: fit0_def)
      show "(\<Sum>r\<leftarrow>ids_of (this_n fit0) y (classes fit0 ! k). cnt r j) < 2 ^ 31"
        if "j < this_p fit0" for j
        using that bound [OF c, of j] unfolding ids by (simp add: fit0_def rows_def)
    qed
    then show "fitMultinomial_class fit0 x y k (pr, cp) =
        (pr(unique y ! k \<mapsto> P (unique y ! k)),
         fold (\<lambda>j cp. set_mat cp j k (V k j)) [0..<shape1 x] cp)"
      unfolding ids by (simp add: fit0_def P_def V_def)
  qed
  have "fold (fitMultinomial_class fit0 x y) [0..<length (unique y)]
          (Map.empty, matrix (shape1 x) (length (unique y))) =
        fold (\<lambda>k (pr, cp). (pr(unique y ! k \<mapsto> P (unique y ! k)),
                    fold (\<lambda>j cp. set_mat cp j k (V k j)) [0..<shape1 x] cp))
          [0..<length (unique y)] (Map.empty, matrix (shape1 x) (length (unique y)))"
    by (intro fold_cong) (auto simp: step)
  moreover obtain pr cp where
    "fold (\<lambda>k (pr, cp). (pr(unique y ! k \<mapsto> P (unique y ! k)),
                    fold (\<lambda>j cp. set_mat cp j k (V k j)) [0..<shape1 x] cp))
          [0..<length (unique y)] (Map.empty, matrix (shape1 x) (length (unique y))) = (pr, cp)"
    and inv: "\<forall>i<length (unique y). pr (unique y ! i) = Some (P (unique y ! i)) \<and>
                (\<forall>j < shape1 x. get cp j i = V i j)"
    using class_loop [of "length (unique y)" "length (unique y)" "\<lambda>k. unique y ! k" P V
        "shape1 x" Map.empty]
    by auto
  ultimately have "MultinomialFit x y (Number a) = fit0\<lparr>prior := pr, cprob := cp\<rparr>"
    by (simp add: MultinomialFit_def fitMultinomial_def fit0_def)
  then show ?thesis
    using inv i j by (simp add: fit0_def P_def V_def rows_def)
qed

theorem MultinomialFit_parameters_witness:
  "length [0, 1 :: label] = shape0 (matrix_of_rows [Fin 2, Fin 0] [[Fin 1, Fin 3]]) \<and>
   (1 :: nat) < length (unique [0, 1]) \<and>
   (0 :: nat) < shape1 (matrix_of_rows [Fin 2, Fin 0] [[Fin 1, Fin 3]]) \<and>
   classes fit_two_classes = [0, 1] \<and>
   prior fit_two_classes 1 = Some (Fin (ln (1 / 2))) \<and>
   get (cprob fit_two_classes) 0 1 = Fin (ln 2 - ln 6)"
proof -
  let ?x = "matrix_of_rows [Fin 2, Fin 0] [[Fin 1, Fin 3]]"
  let ?cnt = "\<lambda>r j. [[2, 0], [1, 3 :: nat]] ! r ! j"
  have h1: "get ?x r j = Fin (real (?cnt r j))" if "r < shape0 ?x" "j < shape1 ?x" for r j
    using that by (auto simp: matrix_of_rows_def get_def elem_def less_Suc_eq nth_Cons')
  have h2: "length [0, 1 :: label] = shape0 ?x"
    by (simp add: matrix_of_rows_def)
  have h3: "(\<Sum>r\<leftarrow>filter (\<lambda>r. [0, 1 :: label] ! r = c) [0..<length [0, 1 :: label]]. ?cnt r j)
              < 2 ^ 31"
    if "c \<in> set [0, 1 :: label]" "j < shape1 ?x" for c j
    using that by (auto simp: matrix_of_rows_def less_Suc_eq nth_Cons')
  have h4: "1 < length (unique [0, 1])"
    by (simp add: unique_def)
  have h5: "0 < shape1 ?x"
    by (simp add: matrix_of_rows_def)
  from MultinomialFit_parameters [of ?x ?cnt "[0, 1]" 1 0 "Fin 1", OF h1 h2 h3 h4 h5]
  show ?thesis
    by (simp add: eval_defs)
qed

end
